theory Spec2Isabelle
  imports Complex_Main "HOL-Library.Word"
begin

section \<open>JavaScript strings\<close>

text \<open>
  A JavaScript string is a sequence of 16-bit code units; \<open>length\<close> counts code units,
  as the \<open>.length\<close> property of the source does. Literals of the source are written
  \<open>js ''...''\<close>.
\<close>

type_synonym ustring = "16 word list"

definition js :: "string \<Rightarrow> ustring" where
  "js s = map of_char s"

text \<open>The code units \<open>String.prototype.trim\<close> strips: WhiteSpace and LineTerminator.\<close>

definition isWhiteSpace :: "16 word \<Rightarrow> bool" where
  "isWhiteSpace c =
     (c \<in> set [0x09, 0x0A, 0x0B, 0x0C, 0x0D, 0x20, 0xA0, 0x1680, 0x2028, 0x2029,
               0x202F, 0x205F, 0x3000, 0xFEFF]
      \<or> (0x2000 \<le> c \<and> c \<le> 0x200A))"

definition trim :: "ustring \<Rightarrow> ustring" where
  "trim s = rev (dropWhile isWhiteSpace (rev (dropWhile isWhiteSpace s)))"

text \<open>\<open>s.split(sep)\<close> for a separator of one code unit: \<open>''''.split\<close> is one empty piece.\<close>

fun split_on :: "16 word \<Rightarrow> ustring \<Rightarrow> ustring list" where
  "split_on sep [] = [[]]"
| "split_on sep (c # cs) =
     (if c = sep then [] # split_on sep cs
      else (case split_on sep cs of
              [] \<Rightarrow> [[c]]
            | w # ws \<Rightarrow> (c # w) # ws))"

text \<open>\<open>xs.join(sep)\<close>.\<close>

fun join :: "ustring \<Rightarrow> ustring list \<Rightarrow> ustring" where
  "join sep [] = []"
| "join sep [x] = x"
| "join sep (x # y # ys) = x @ sep @ join sep (y # ys)"

text \<open>\<open>s.substring(0, Math.min(s.length, n))\<close>.\<close>

definition substring0 :: "nat \<Rightarrow> ustring \<Rightarrow> ustring" where
  "substring0 n s = take (min (length s) n) s"

section \<open>The page: a DOM tree\<close>

text \<open>
  A node is a text node or an element. An element carries its lower-case tag name, its
  class list, its other attributes (\<open>id\<close> among them), the inline style properties a script
  has assigned, whether layout gives it an offset parent (\<open>offsetParent !== null\<close>, a fact
  of rendering that the tree does not determine), and its children. The scripts read that
  fact only on the first match of a container selector of \<open>updateArticleBody\<close>, which none
  of the elements they create is.
\<close>

datatype node =
    Text ustring
  | Element (localName: string) (classList: "string list") (attrs: "(string \<times> ustring) list")
      (style: "(string \<times> string) list") (offsetParent: bool) (childNodes: "node list")
where
  "localName (Text s) = []"
| "classList (Text s) = []"
| "attrs (Text s) = []"
| "style (Text s) = []"
| "offsetParent (Text s) = False"
| "childNodes (Text s) = []"

fun isElement :: "node \<Rightarrow> bool" where
  "isElement (Text s) = False"
| "isElement (Element t c a s v k) = True"

text \<open>\<open>node.textContent\<close>: the text of all text nodes below, in tree order.\<close>

fun textContent :: "node \<Rightarrow> ustring" where
  "textContent (Text s) = s"
| "textContent (Element t c a s v kids) = concat (map textContent kids)"

text \<open>The elements of a subtree in tree order (pre-order), the root first.\<close>

fun subtree :: "node \<Rightarrow> node list" where
  "subtree (Text s) = []"
| "subtree (Element t c a s v kids) = Element t c a s v kids # concat (map subtree kids)"

definition forest :: "node list \<Rightarrow> node list" where
  "forest ns = concat (map subtree ns)"

definition descendants :: "node \<Rightarrow> node list" where
  "descendants n = forest (childNodes n)"

text \<open>
  An HTML document always has a \<open>head\<close> and a \<open>body\<close> element; the record holds the
  children of each. The \<open>html\<close>, \<open>head\<close> and \<open>body\<close> elements themselves match none of
  the selectors the scripts use.
\<close>

record document =
  head :: "node list"
  body :: "node list"

definition all_elements :: "document \<Rightarrow> node list" where
  "all_elements d = forest (head d) @ forest (body d)"

subsection \<open>Selectors\<close>

text \<open>
  The selectors of the source are a type selector alone or with one class, id or attribute
  condition: \<open>h1\<close>, \<open>h1.artTitle\<close>, \<open>div#content-area\<close>, \<open>div[data-story-id]\<close>,
  \<open>h1[itemprop="headline"]\<close>.
\<close>

datatype selector =
    Type string
  | TypeClass string string
  | TypeId string string
  | TypeAttr string string
  | TypeAttrEq string string string

fun selector_source :: "selector \<Rightarrow> string" where
  "selector_source (Type t) = t"
| "selector_source (TypeClass t c) = t @ ''.'' @ c"
| "selector_source (TypeId t i) = t @ ''#'' @ i"
| "selector_source (TypeAttr t a) = t @ ''['' @ a @ '']''"
| "selector_source (TypeAttrEq t a v) = t @ ''['' @ a @ ''=\"'' @ v @ ''\"]''"

definition startsWith :: "string \<Rightarrow> string \<Rightarrow> bool" where
  "startsWith s p = (take (length p) s = p)"

definition getAttribute :: "string \<Rightarrow> node \<Rightarrow> ustring option" where
  "getAttribute a n = map_of (attrs n) a"

fun matches :: "selector \<Rightarrow> node \<Rightarrow> bool" where
  "matches (Type t) n = (isElement n \<and> localName n = t)"
| "matches (TypeClass t c) n = (isElement n \<and> localName n = t \<and> c \<in> set (classList n))"
| "matches (TypeId t i) n = (isElement n \<and> localName n = t \<and> getAttribute ''id'' n = Some (js i))"
| "matches (TypeAttr t a) n = (isElement n \<and> localName n = t \<and> getAttribute a n \<noteq> None)"
| "matches (TypeAttrEq t a v) n =
     (isElement n \<and> localName n = t \<and> getAttribute a n = Some (js v))"

definition matchesAny :: "selector list \<Rightarrow> node \<Rightarrow> bool" where
  "matchesAny sels n = list_ex (\<lambda>s. matches s n) sels"

text \<open>\<open>document.querySelector\<close>, \<open>document.querySelectorAll\<close> and the element forms.\<close>

definition querySelector :: "selector \<Rightarrow> document \<Rightarrow> node option" where
  "querySelector sel d = find (matches sel) (all_elements d)"

definition querySelectorAll :: "selector list \<Rightarrow> document \<Rightarrow> node list" where
  "querySelectorAll sels d = filter (matchesAny sels) (all_elements d)"

definition elemQuerySelector :: "selector \<Rightarrow> node \<Rightarrow> node option" where
  "elemQuerySelector sel e = find (matches sel) (descendants e)"

definition elemQuerySelectorAll :: "selector list \<Rightarrow> node \<Rightarrow> node list" where
  "elemQuerySelectorAll sels e = filter (matchesAny sels) (descendants e)"

subsection \<open>\<open>document.title\<close>\<close>

text \<open>
  The getter reads the first \<open>title\<close> element of the document: the text of its text-node
  children with ASCII whitespace stripped at both ends and collapsed inside; the empty
  string when there is no such element.
\<close>

definition isAsciiWhitespace :: "16 word \<Rightarrow> bool" where
  "isAsciiWhitespace c = (c \<in> set [0x09, 0x0A, 0x0C, 0x0D, 0x20])"

fun collapse :: "bool \<Rightarrow> ustring \<Rightarrow> ustring" where
  "collapse pending [] = []"
| "collapse pending (c # cs) =
     (if isAsciiWhitespace c then collapse True cs
      else (if pending then [0x20, c] else [c]) @ collapse False cs)"

definition stripAndCollapse :: "ustring \<Rightarrow> ustring" where
  "stripAndCollapse s = collapse False (dropWhile isAsciiWhitespace s)"

fun childText :: "node list \<Rightarrow> ustring" where
  "childText [] = []"
| "childText (Text s # ns) = s @ childText ns"
| "childText (Element t c a s v k # ns) = childText ns"

definition document_title :: "document \<Rightarrow> ustring" where
  "document_title d =
     (case querySelector (Type ''title'') d of
        None \<Rightarrow> []
      | Some t \<Rightarrow> stripAndCollapse (childText (childNodes t)))"

section \<open>Extraction (content script)\<close>

subsection \<open>\<open>getArticleTitle\<close>\<close>

definition titleSelectors :: "selector list" where
  "titleSelectors =
     [TypeClass ''h1'' ''artTitle'',
      TypeAttrEq ''h1'' ''itemprop'' ''headline'',
      TypeClass ''h1'' ''story-title'',
      TypeClass ''h1'' ''headline'',
      Type ''h1'',
      TypeAttrEq ''meta'' ''property'' ''og:title'',
      Type ''title'']"

text \<open>
  The \<open>for\<close> loop over the selectors: \<open>Some t\<close> is \<open>return t\<close> from inside the loop,
  \<open>None\<close> is the loop running to its end.
\<close>

fun titleLoop :: "document \<Rightarrow> selector list \<Rightarrow> ustring option" where
  "titleLoop d [] = None"
| "titleLoop d (selector # rest) =
     (case querySelector selector d of
        None \<Rightarrow> titleLoop d rest
      | Some element \<Rightarrow>
          if textContent element \<noteq> [] \<and> startsWith (selector_source selector) ''h1''
          then Some (trim (textContent element))
          else titleLoop d rest)"

text \<open>The \<open>content\<close> property of a \<open>meta\<close> element: the attribute, or the empty string.\<close>

definition content :: "node \<Rightarrow> ustring" where
  "content n = (case getAttribute ''content'' n of None \<Rightarrow> [] | Some v \<Rightarrow> v)"

text \<open>The result \<open>None\<close> is \<open>null\<close>.\<close>

definition getArticleTitle :: "document \<Rightarrow> ustring option" where
  "getArticleTitle d =
     (case titleLoop d titleSelectors of
        Some t \<Rightarrow> Some t
      | None \<Rightarrow>
          (case querySelector (TypeAttrEq ''meta'' ''property'' ''og:title'') d of
             Some ogTitleMeta \<Rightarrow>
               if content ogTitleMeta \<noteq> [] then Some (trim (content ogTitleMeta))
               else if document_title d \<noteq> [] then Some (trim (document_title d))
               else None
           | None \<Rightarrow>
               if document_title d \<noteq> [] then Some (trim (document_title d))
               else None))"

subsection \<open>\<open>getArticleBody\<close>\<close>

definition articleBodySelectors :: "selector list" where
  "articleBodySelectors =
     [TypeClass ''div'' ''_3g2R-'',
      TypeAttrEq ''div'' ''itemprop'' ''articleBody'',
      Type ''article'',
      TypeClass ''div'' ''story-content'',
      TypeClass ''div'' ''article-body'',
      TypeClass ''div'' ''section-article-text'',
      TypeClass ''div'' ''content-wrapper'',
      TypeClass ''div'' ''article-detail'',
      TypeClass ''div'' ''entry-content'',
      TypeClass ''div'' ''td-post-content'',
      TypeClass ''div'' ''primary-content'',
      TypeClass ''div'' ''fl-post-content'',
      TypeClass ''div'' ''inner-content'',
      TypeClass ''div'' ''story-element-text'',
      TypeClass ''div'' ''detail-content'',
      TypeClass ''div'' ''_3MkB4'',
      TypeAttr ''div'' ''data-story-id'',
      TypeClass ''div'' ''article-content'',
      TypeClass ''div'' ''full_story'',
      TypeId ''div'' ''content-area'',
      TypeClass ''div'' ''story_content'',
      TypeClass ''div'' ''Normal'']"

text \<open>The first loop: the first match of the first selector that matches anything.\<close>

fun findContainer :: "document \<Rightarrow> selector list \<Rightarrow> node option" where
  "findContainer d [] = None"
| "findContainer d (selector # rest) =
     (case querySelector selector d of
        Some element \<Rightarrow> Some element
      | None \<Rightarrow> findContainer d rest)"

definition paragraphSelectors :: "selector list" where
  "paragraphSelectors = [Type ''p'', TypeClass ''div'' ''Normal'']"

definition trimmedTexts :: "node list \<Rightarrow> ustring list" where
  "trimmedTexts ps = map (\<lambda>p. trim (textContent p)) ps"

text \<open>The list \<open>articleText\<close> as it stands when the branches have run.\<close>

definition articleText :: "document \<Rightarrow> ustring list" where
  "articleText d =
     (case findContainer d articleBodySelectors of
        None \<Rightarrow>
          filter (\<lambda>text. length text > 100 \<and> length (split_on 0x20 text) > 10)
            (trimmedTexts (querySelectorAll paragraphSelectors d))
      | Some mainArticleElement \<Rightarrow>
          (let paragraphs = elemQuerySelectorAll paragraphSelectors mainArticleElement in
           if length paragraphs > 0
           then filter (\<lambda>text. length text > 50) (trimmedTexts paragraphs)
           else (let directText = trim (textContent mainArticleElement) in
                 if length directText > 100 then [directText] else [])))"

definition getArticleBody :: "document \<Rightarrow> ustring option" where
  "getArticleBody d =
     (if length (articleText d) > 0
      then Some (join (js ''\<newline>\<newline>'') (articleText d))
      else None)"

section \<open>Rendering (content script)\<close>

subsection \<open>Writing to the tree\<close>

text \<open>
  An element the script holds is the first element in tree order that satisfies the query
  it came from; \<open>alterFirst p f\<close> puts \<open>f e\<close> in the place of that element \<open>e\<close>
  (\<open>None\<close> when no element satisfies \<open>p\<close>).
\<close>

fun alterFirst :: "(node \<Rightarrow> bool) \<Rightarrow> (node \<Rightarrow> node list) \<Rightarrow> node list \<Rightarrow> node list option" where
  "alterFirst p f [] = None"
| "alterFirst p f (Text s # ns) = map_option (\<lambda>ns'. Text s # ns') (alterFirst p f ns)"
| "alterFirst p f (Element t c a s v kids # ns) =
     (if p (Element t c a s v kids) then Some (f (Element t c a s v kids) @ ns)
      else (case alterFirst p f kids of
              Some kids' \<Rightarrow> Some (Element t c a s v kids' # ns)
            | None \<Rightarrow> map_option (\<lambda>ns'. Element t c a s v kids # ns') (alterFirst p f ns)))"

definition alterFirstDoc :: "(node \<Rightarrow> bool) \<Rightarrow> (node \<Rightarrow> node list) \<Rightarrow> document \<Rightarrow> document option" where
  "alterFirstDoc p f d =
     (case alterFirst p f (head d) of
        Some h \<Rightarrow> Some (d\<lparr>head := h\<rparr>)
      | None \<Rightarrow> map_option (\<lambda>b. d\<lparr>body := b\<rparr>) (alterFirst p f (body d)))"

text \<open>Assigning \<open>textContent\<close> or \<open>innerHTML = ''\<close>, and one inline style property.\<close>

fun setChildNodes :: "node list \<Rightarrow> node \<Rightarrow> node" where
  "setChildNodes kids (Text s) = Text s"
| "setChildNodes kids (Element t c a s v old) = Element t c a s v kids"

definition setTextContent :: "ustring \<Rightarrow> node \<Rightarrow> node" where
  "setTextContent text n = setChildNodes (if text = [] then [] else [Text text]) n"

fun setStyle :: "string \<Rightarrow> string \<Rightarrow> node \<Rightarrow> node" where
  "setStyle k x (Text s) = Text s"
| "setStyle k x (Element t c a s v kids) =
     Element t c a (filter (\<lambda>kv. fst kv \<noteq> k) s @ [(k, x)]) v kids"

text \<open>
  \<open>innerHTML\<close> of a new element is assigned a template with a run-time string spliced
  in, unescaped. A spliced string without \<open><\<close>, \<open>&\<close>, carriage return and NUL is character
  data to the fragment parser: it becomes one text node where it stands (none when it is
  empty), and the elements are those of the template. What the parser makes of the markup
  when the spliced string is of another kind is a parameter.
\<close>

type_synonym htmlParser = "ustring \<Rightarrow> node list"

definition plainText :: "ustring \<Rightarrow> bool" where
  "plainText s = list_all (\<lambda>c. c \<notin> set [0x00, 0x0D, 0x26, 0x3C]) s"

definition textNodes :: "ustring \<Rightarrow> node list" where
  "textNodes s = (if s = [] then [] else [Text s])"

definition hasId :: "string \<Rightarrow> node \<Rightarrow> bool" where
  "hasId i n = (isElement n \<and> getAttribute ''id'' n = Some (js i))"

subsection \<open>\<open>showMessageBox\<close>\<close>

definition messageBoxHTML :: "ustring \<Rightarrow> ustring" where
  "messageBoxHTML message =
     js ''\<newline>        <div class=\"flex items-center justify-between\">\<newline>            <span>''
     @ message
     @ js ''</span>\<newline>            <button id=\"closeMessageBox\" class=\"ml-4 text-white hover:text-gray-200 font-bold text-xl leading-none\">&times;</button>\<newline>        </div>\<newline>    ''"

definition messageBoxClasses :: "string list" where
  "messageBoxClasses =
     [''fixed'', ''bottom-4'', ''right-4'', ''p-4'', ''rounded-lg'', ''shadow-lg'',
      ''text-white'', ''z-[9999]'', ''transition-opacity'', ''duration-500'']"

text \<open>The nodes of the template around a plain message; \<open>&times;\<close> is U+00D7.\<close>

definition messageBoxTree :: "ustring \<Rightarrow> node list" where
  "messageBoxTree message =
     [Text (js ''\<newline>        ''),
      Element ''div'' [''flex'', ''items-center'', ''justify-between''] [] [] True
        [Text (js ''\<newline>            ''),
         Element ''span'' [] [] [] True (textNodes message),
         Text (js ''\<newline>            ''),
         Element ''button''
           [''ml-4'', ''text-white'', ''hover:text-gray-200'', ''font-bold'', ''text-xl'',
            ''leading-none'']
           [(''id'', js ''closeMessageBox'')] [] True [Text [0xD7]],
         Text (js ''\<newline>        '')],
      Text (js ''\<newline>    '')]"

definition messageBox :: "htmlParser \<Rightarrow> ustring \<Rightarrow> string \<Rightarrow> node" where
  "messageBox parse message type =
     Element ''div''
       (messageBoxClasses @ [if type = ''success'' then ''bg-green-500'' else ''bg-red-500''])
       [(''id'', js ''extensionMessageBox'')] [] True
       (if plainText message then messageBoxTree message else parse (messageBoxHTML message))"

text \<open>
  An element with the id \<open>extensionMessageBox\<close> is removed wherever it is, then the new
  box is appended to the body: \<open>showMessageBox\<close> is the document after the call. The
  listener and the timers that take the box away again (5 seconds plus the fade) are
  outside the model, and so is the console.
\<close>

definition removeExistingBox :: "document \<Rightarrow> document" where
  "removeExistingBox d =
     (case alterFirstDoc (hasId ''extensionMessageBox'') (\<lambda>existingBox. []) d of
        Some d' \<Rightarrow> d'
      | None \<Rightarrow> d)"

definition showMessageBox :: "htmlParser \<Rightarrow> ustring \<Rightarrow> string \<Rightarrow> document \<Rightarrow> document" where
  "showMessageBox parse message type d =
     (let d' = removeExistingBox d in
      d'\<lparr>body := body d' @ [messageBox parse message type]\<rparr>)"

subsection \<open>\<open>updateArticleTitle\<close>\<close>

definition h1Selectors :: "selector list" where
  "h1Selectors =
     [TypeClass ''h1'' ''artTitle'',
      TypeAttrEq ''h1'' ''itemprop'' ''headline'',
      TypeClass ''h1'' ''story-title'',
      TypeClass ''h1'' ''headline'',
      Type ''h1'']"

text \<open>
  The chain \<open>querySelector(...) || ... || h1Elements[0]\<close>, as the query whose first match is
  \<open>mainTitleElement\<close>.
\<close>

definition mainTitleQuery :: "document \<Rightarrow> node \<Rightarrow> bool" where
  "mainTitleQuery d =
     (if querySelector (TypeClass ''h1'' ''artTitle'') d \<noteq> None
      then matches (TypeClass ''h1'' ''artTitle'')
      else if querySelector (TypeAttrEq ''h1'' ''itemprop'' ''headline'') d \<noteq> None
      then matches (TypeAttrEq ''h1'' ''itemprop'' ''headline'')
      else if querySelector (TypeClass ''h1'' ''story-title'') d \<noteq> None
      then matches (TypeClass ''h1'' ''story-title'')
      else if querySelector (TypeClass ''h1'' ''headline'') d \<noteq> None
      then matches (TypeClass ''h1'' ''headline'')
      else matchesAny h1Selectors)"

text \<open>The clapper board and the notes of the new heading are U+1F3AC and U+1F3B6.\<close>

definition movieHeading :: "ustring \<Rightarrow> ustring" where
  "movieHeading newTitle = [0xD83C, 0xDFAC, 0x20] @ newTitle @ [0x20, 0xD83C, 0xDFB6]"

definition restyleTitle :: "ustring \<Rightarrow> node \<Rightarrow> node" where
  "restyleTitle newTitle mainTitleElement =
     setStyle ''marginTop'' ''20px''
       (setStyle ''marginBottom'' ''20px''
         (setStyle ''fontWeight'' ''bold''
           (setStyle ''textAlign'' ''center''
             (setStyle ''fontSize'' ''2.5rem''
               (setStyle ''color'' ''#8B0000''
                 (setTextContent (movieHeading newTitle) mainTitleElement))))))"

text \<open>
  The setter of \<open>document.title\<close>: the text of the first \<open>title\<close> element is replaced; a
  document without one gets a new \<open>title\<close> element at the end of its head.
\<close>

definition set_document_title :: "ustring \<Rightarrow> document \<Rightarrow> document" where
  "set_document_title text d =
     (case alterFirstDoc (matches (Type ''title'')) (\<lambda>t. [setTextContent text t]) d of
        Some d' \<Rightarrow> d'
      | None \<Rightarrow> d\<lparr>head := head d @ [setTextContent text (Element ''title'' [] [] [] False [])]\<rparr>)"

definition updateArticleTitle :: "ustring \<Rightarrow> document \<Rightarrow> document" where
  "updateArticleTitle newTitle d =
     (if length (querySelectorAll h1Selectors d) > 0
      then (case alterFirstDoc (mainTitleQuery d) (\<lambda>e. [restyleTitle newTitle e]) d of
              Some d' \<Rightarrow> d'
            | None \<Rightarrow> set_document_title newTitle d)
      else set_document_title newTitle d)"

subsection \<open>\<open>updateArticleBody\<close>\<close>

definition articleBodyContainerSelectors :: "selector list" where
  "articleBodyContainerSelectors =
     [TypeAttrEq ''div'' ''data-articlebody'' ''1'',
      TypeClass ''div'' ''vSlIC'',
      TypeClass ''div'' ''_3g2R-'',
      Type ''article'',
      TypeClass ''div'' ''story-content'',
      TypeClass ''div'' ''article-body'',
      TypeClass ''div'' ''Normal'',
      TypeClass ''div'' ''section-article-text'',
      TypeClass ''div'' ''content-wrapper'',
      TypeClass ''div'' ''article-detail'',
      TypeClass ''div'' ''entry-content'',
      TypeClass ''div'' ''td-post-content'',
      TypeClass ''div'' ''primary-content'',
      TypeClass ''div'' ''fl-post-content'',
      TypeClass ''div'' ''inner-content'',
      TypeClass ''div'' ''story-element-text'',
      TypeClass ''div'' ''detail-content'',
      TypeClass ''div'' ''_3MkB4'',
      TypeAttr ''div'' ''data-story-id'',
      TypeClass ''div'' ''article-content'',
      TypeClass ''div'' ''full_story'',
      TypeId ''div'' ''content-area'',
      TypeClass ''div'' ''story_content'']"

text \<open>The test of line 252 on the first match of a selector.\<close>

definition qualifies :: "selector \<Rightarrow> node \<Rightarrow> bool" where
  "qualifies selector element =
     (elemQuerySelector (Type ''p'') element \<noteq> None
      \<or> elemQuerySelector (TypeClass ''div'' ''Normal'') element \<noteq> None
      \<or> length (trim (textContent element)) > 200
      \<or> (selector = TypeClass ''div'' ''vSlIC'' \<and> length (trim (textContent element)) > 50))"

text \<open>
  The search loop: the result is the selector whose first match became
  \<open>mainArticleElement\<close>.
\<close>

fun findUpdateContainer :: "document \<Rightarrow> selector list \<Rightarrow> selector option" where
  "findUpdateContainer d [] = None"
| "findUpdateContainer d (selector # rest) =
     (case querySelector selector d of
        None \<Rightarrow> findUpdateContainer d rest
      | Some element \<Rightarrow>
          if offsetParent element \<and> qualifies selector element then Some selector
          else findUpdateContainer d rest)"

definition lyricLines :: "ustring \<Rightarrow> ustring list" where
  "lyricLines songLyrics = filter (\<lambda>line. trim line \<noteq> []) (split_on 0x0A songLyrics)"

definition lyricParagraph :: "ustring \<Rightarrow> node" where
  "lyricParagraph line = setTextContent line (Element ''p'' [''my-2''] [] [] True [])"

text \<open>The signature starts with an em dash, U+2014.\<close>

definition signatureText :: ustring where
  "signatureText = 0x2014 # js '' Your Bollywood News Transformer''"

definition signature :: node where
  "signature =
     setTextContent signatureText
       (Element ''p'' [''mt-6'', ''italic'', ''text-gray-600'', ''text-sm''] [] [] True [])"

definition lyricsContainer :: "ustring \<Rightarrow> node" where
  "lyricsContainer songLyrics =
     Element ''div''
       [''bollywood-lyrics-container'', ''text-center'', ''py-8'', ''px-4'',
        ''bg-gradient-to-r'', ''from-purple-100'', ''to-pink-100'', ''rounded-lg'',
        ''shadow-lg'', ''my-8'', ''mx-auto'', ''max-w-2xl'']
       []
       [(''fontFamily'', [CHR 0x27] @ ''Dancing Script'' @ [CHR 0x27] @ '', cursive''),
        (''fontSize'', ''1.2rem''), (''lineHeight'', ''1.8''), (''color'', ''#4A0033''),
        (''width'', ''100%'')]
       True
       (map lyricParagraph (lyricLines songLyrics) @ [signature])"

definition fontLink :: node where
  "fontLink =
     Element ''link'' []
       [(''href'', js ''https://fonts.googleapis.com/css2?family=Dancing+Script:wght@700&display=swap''),
        (''rel'', js ''stylesheet'')]
       [] False []"

text \<open>The heading of the appended section starts with U+FFFD in the source.\<close>

definition newSectionHTML :: "ustring \<Rightarrow> ustring" where
  "newSectionHTML songLyrics =
     js ''\<newline>            <h2 class=\"text-2xl font-bold text-purple-700 mb-4\">''
     @ [0xFFFD] @ js '' A Bollywood Extravaganza! '' @ [0xD83C, 0xDFB6]
     @ js ''</h2>\<newline>            <div class=\"text-lg text-gray-800 whitespace-pre-wrap\">''
     @ songLyrics
     @ js ''</div>\<newline>            <p class=\"mt-6 italic text-gray-600 text-sm\">''
     @ signatureText
     @ js ''</p>\<newline>        ''"

text \<open>The nodes of the template around plain lyrics.\<close>

definition newSectionTree :: "ustring \<Rightarrow> node list" where
  "newSectionTree songLyrics =
     [Text (js ''\<newline>            ''),
      Element ''h2'' [''text-2xl'', ''font-bold'', ''text-purple-700'', ''mb-4''] [] [] True
        [Text ([0xFFFD] @ js '' A Bollywood Extravaganza! '' @ [0xD83C, 0xDFB6])],
      Text (js ''\<newline>            ''),
      Element ''div'' [''text-lg'', ''text-gray-800'', ''whitespace-pre-wrap''] [] [] True
        (textNodes songLyrics),
      Text (js ''\<newline>            ''),
      Element ''p'' [''mt-6'', ''italic'', ''text-gray-600'', ''text-sm''] [] [] True
        [Text signatureText],
      Text (js ''\<newline>        '')]"

definition newSection :: "htmlParser \<Rightarrow> ustring \<Rightarrow> node" where
  "newSection parse songLyrics =
     Element ''div''
       [''bollywood-content-appended'', ''text-center'', ''py-8'', ''px-4'', ''mt-8'',
        ''bg-gradient-to-r'', ''from-blue-100'', ''to-indigo-100'', ''rounded-lg'',
        ''shadow-lg'', ''my-8'', ''mx-auto'', ''max-w-2xl'']
       [] [] True
       (if plainText songLyrics then newSectionTree songLyrics
        else parse (newSectionHTML songLyrics))"

definition updateArticleBody :: "htmlParser \<Rightarrow> ustring \<Rightarrow> document \<Rightarrow> document" where
  "updateArticleBody parse songLyrics d =
     (case findUpdateContainer d articleBodyContainerSelectors of
        Some selector \<Rightarrow>
          (case alterFirstDoc (matches selector)
                  (\<lambda>mainArticleElement.
                     [setChildNodes [lyricsContainer songLyrics] mainArticleElement]) d of
             Some d' \<Rightarrow> d'\<lparr>head := head d' @ [fontLink]\<rparr>
           | None \<Rightarrow> d)
      | None \<Rightarrow> d\<lparr>body := body d @ [newSection parse songLyrics]\<rparr>)"

section \<open>\<open>transformArticle\<close> (content script)\<close>

text \<open>
  The reply of the background script is \<open>{success: true, movieTitle, songLyrics}\<close> or
  \<open>{success: false, error}\<close>; the callback of \<open>chrome.runtime.sendMessage\<close> gets
  \<open>undefined\<close> (here \<open>None\<close>) when no reply arrives.
\<close>

datatype transform_response =
    Succeeded (movieTitle: ustring) (songLyrics: ustring)
  | Failed (error: "ustring option")

record transform_request =
  action :: string
  articleTitle :: ustring
  articleBody :: ustring

datatype js_error = Error (message: ustring)

text \<open>
  The \<open>TypeError\<close> of reading a property of \<open>undefined\<close> or \<open>null\<close>, and of calling what
  is no function, with the wording of V8; the scripts use only the message.
\<close>

definition cannotRead :: "string \<Rightarrow> string \<Rightarrow> js_error" where
  "cannotRead what property =
     Error (js (''Cannot read properties of '' @ what @ '' (reading '' @ [CHR 0x27] @ property
                @ [CHR 0x27] @ '')''))"

definition notAFunction :: "string \<Rightarrow> js_error" where
  "notAFunction expression = Error (js (expression @ '' is not a function''))"

text \<open>
  The exception a call of \<open>showMessageBox\<close> ends with, if any. With the box in the
  document, line 164 looks the close button up by its id and adds a listener to what it
  finds: when the markup of the message has left no element with the id
  \<open>closeMessageBox\<close>, reading \<open>addEventListener\<close> of \<open>null\<close> throws, the box staying
  where it is.
\<close>

definition showMessageBox_thrown ::
    "htmlParser \<Rightarrow> ustring \<Rightarrow> string \<Rightarrow> document \<Rightarrow> js_error option" where
  "showMessageBox_thrown parse notice type d =
     (case find (hasId ''closeMessageBox'') (all_elements (showMessageBox parse notice type d)) of
        None \<Rightarrow> Some (cannotRead ''null'' ''addEventListener'')
      | Some closeButton \<Rightarrow> None)"

text \<open>
  The state of one page load: the document, the flag \<open>isTransformed\<close>, the messages
  handed to \<open>chrome.runtime.sendMessage\<close> so far, and the number of invocations of
  \<open>transformArticle\<close> that are suspended at the \<open>await\<close>.
\<close>

record page =
  doc :: document
  isTransformed :: bool
  outbox :: "transform_request list"
  pending :: nat

text \<open>Truthiness of a value that is \<open>null\<close>/\<open>undefined\<close> or a string.\<close>

definition truthy :: "ustring option \<Rightarrow> bool" where
  "truthy v = (case v of None \<Rightarrow> False | Some s \<Rightarrow> s \<noteq> [])"

text \<open>
  \<open>transformArticle\<close> is an \<open>async\<close> function with one \<open>await\<close>. Its body up to the
  \<open>await\<close> runs when it is called (\<open>transformArticle_begin\<close>); the rest runs when the
  callback delivers the response (\<open>transformArticle_resume\<close>). Other code of the page,
  another call of \<open>transformArticle\<close> included, can run in between. An exception of
  \<open>showMessageBox\<close> ends the invocation where it is thrown: the statements after the call
  are not run.
\<close>

definition transformArticle_begin :: "htmlParser \<Rightarrow> page \<Rightarrow> page" where
  "transformArticle_begin parse pg =
     (if isTransformed pg then pg
      else
        (let title = getArticleTitle (doc pg);
             body = getArticleBody (doc pg)
         in case (title, body) of
              (Some t, Some b) \<Rightarrow>
                if t \<noteq> [] \<and> b \<noteq> []
                then (case showMessageBox_thrown parse
                              (js ''Transforming article... Please wait for the magic!'')
                              ''success'' (doc pg) of
                        Some thrown \<Rightarrow>
                          pg\<lparr>doc := showMessageBox parse
                                (js ''Transforming article... Please wait for the magic!'')
                                ''success'' (doc pg)\<rparr>
                      | None \<Rightarrow>
                          pg\<lparr>doc := showMessageBox parse
                                (js ''Transforming article... Please wait for the magic!'')
                                ''success'' (doc pg),
                             outbox := outbox pg @
                                [\<lparr>action = ''transformArticle'', articleTitle = t,
                                  articleBody = b\<rparr>],
                             pending := Suc (pending pg)\<rparr>)
                else pg\<lparr>doc := showMessageBox parse
                                (js ''Could not find enough article content to transform. Try a different article or newspaper.'')
                                ''error'' (doc pg)\<rparr>
            | _ \<Rightarrow>
                pg\<lparr>doc := showMessageBox parse
                           (js ''Could not find enough article content to transform. Try a different article or newspaper.'')
                           ''error'' (doc pg)\<rparr>))"

text \<open>\<open>response.error || 'Unknown error'\<close>.\<close>

definition errorText :: "ustring option \<Rightarrow> ustring" where
  "errorText e = (if truthy e then the e else js ''Unknown error'')"

text \<open>
  The second component is the exception that ends the invocation, if any: reading
  \<open>response.error\<close> of an undefined response throws before anything is shown, and
  \<open>showMessageBox\<close> throws when the markup of its message leaves no close button, which
  after a rendering keeps the flag from being set.
\<close>

definition transformArticle_resume ::
    "htmlParser \<Rightarrow> transform_response option \<Rightarrow> page \<Rightarrow> page \<times> js_error option" where
  "transformArticle_resume parse response pg =
     (case response of
        Some (Succeeded t l) \<Rightarrow>
          (let rendered = updateArticleBody parse l (updateArticleTitle t (doc pg));
               notice = js ''Article transformed into a Bollywood masterpiece!''
           in case showMessageBox_thrown parse notice ''success'' rendered of
                Some thrown \<Rightarrow>
                  (pg\<lparr>doc := showMessageBox parse notice ''success'' rendered\<rparr>, Some thrown)
              | None \<Rightarrow>
                  (pg\<lparr>doc := showMessageBox parse notice ''success'' rendered,
                      isTransformed := True\<rparr>, None))
      | Some (Failed e) \<Rightarrow>
          (pg\<lparr>doc := showMessageBox parse (js ''Transformation failed: '' @ errorText e)
                       ''error'' (doc pg)\<rparr>,
           showMessageBox_thrown parse (js ''Transformation failed: '' @ errorText e)
             ''error'' (doc pg))
      | None \<Rightarrow>
          (pg, Some (cannotRead ''undefined'' ''error'')))"

text \<open>
  What happens during a page load, as far as \<open>transformArticle\<close> goes: a call of it, or
  the delivery of a response to a suspended invocation. The invocations share the page and
  the flag, and every continuation is the same code, so the state needs only their number.
  An exception that ends an invocation rejects its promise, which nothing awaits: the page
  goes on in the state the invocation left.
\<close>

datatype event = Invoke | Deliver "transform_response option"

fun step :: "htmlParser \<Rightarrow> event \<Rightarrow> page \<Rightarrow> page" where
  "step parse Invoke pg = transformArticle_begin parse pg"
| "step parse (Deliver response) pg =
     (if pending pg = 0 then pg
      else fst (transformArticle_resume parse response (pg\<lparr>pending := pending pg - 1\<rparr>)))"

definition run :: "htmlParser \<Rightarrow> event list \<Rightarrow> page \<Rightarrow> page" where
  "run parse events pg = fold (step parse) events pg"

section \<open>The background script\<close>

subsection \<open>Values parsed from JSON\<close>

text \<open>
  What \<open>response.json()\<close> resolves to. A number is the rational it stands for (the
  script only tests a number for being zero or positive); an object is the list of its own
  properties. A value that may be \<open>undefined\<close> is a \<open>json option\<close>.
\<close>

datatype json =
    JNull
  | JBool bool
  | JNumber rat
  | JString ustring
  | JArray "json list"
  | JObject "(string \<times> json) list"

text \<open>
  Reading a property, for the names the script reads (\<open>error\<close>, \<open>candidates\<close>, \<open>content\<close>,
  \<open>parts\<close>, \<open>text\<close>, \<open>length\<close> and the index \<open>0\<close>): \<open>undefined\<close> and \<open>null\<close> throw, arrays
  and strings have a length and elements, other primitives have none of these properties.
\<close>

fun getProp :: "string \<Rightarrow> json option \<Rightarrow> js_error + json option" where
  "getProp k None = Inl (cannotRead ''undefined'' k)"
| "getProp k (Some JNull) = Inl (cannotRead ''null'' k)"
| "getProp k (Some (JBool b)) = Inr None"
| "getProp k (Some (JNumber n)) = Inr None"
| "getProp k (Some (JString s)) =
     Inr (if k = ''length'' then Some (JNumber (of_nat (length s)))
          else if k = ''0'' then (case s of [] \<Rightarrow> None | c # cs \<Rightarrow> Some (JString [c]))
          else None)"
| "getProp k (Some (JArray xs)) =
     Inr (if k = ''length'' then Some (JNumber (of_nat (length xs)))
          else if k = ''0'' then (case xs of [] \<Rightarrow> None | x # ys \<Rightarrow> Some x)
          else None)"
| "getProp k (Some (JObject kvs)) = Inr (map_of kvs k)"

fun toBoolean :: "json option \<Rightarrow> bool" where
  "toBoolean None = False"
| "toBoolean (Some JNull) = False"
| "toBoolean (Some (JBool b)) = b"
| "toBoolean (Some (JNumber n)) = (n \<noteq> 0)"
| "toBoolean (Some (JString s)) = (s \<noteq> [])"
| "toBoolean (Some (JArray xs)) = True"
| "toBoolean (Some (JObject kvs)) = True"

text \<open>
  The comparison \<open>v > 0\<close>. Its operand is the \<open>length\<close> of an array or a string except
  when \<open>candidates\<close> or \<open>parts\<close> is an object with a property of that name; what the
  engine's conversion to a number makes of a string, an array or an object is a parameter.
\<close>

type_synonym conversion = "json \<Rightarrow> js_error + bool"

fun greaterThanZero :: "conversion \<Rightarrow> json option \<Rightarrow> js_error + bool" where
  "greaterThanZero conv None = Inr False"
| "greaterThanZero conv (Some JNull) = Inr False"
| "greaterThanZero conv (Some (JBool b)) = Inr b"
| "greaterThanZero conv (Some (JNumber n)) = Inr (0 < n)"
| "greaterThanZero conv (Some (JString s)) = conv (JString s)"
| "greaterThanZero conv (Some (JArray xs)) = conv (JArray xs)"
| "greaterThanZero conv (Some (JObject kvs)) = conv (JObject kvs)"

text \<open>An exception ends the evaluation: \<open>Inl\<close> is the thrown error.\<close>

definition bindE :: "js_error + 'a \<Rightarrow> ('a \<Rightarrow> js_error + 'b) \<Rightarrow> js_error + 'b" where
  "bindE m f = (case m of Inl e \<Rightarrow> Inl e | Inr x \<Rightarrow> f x)"

text \<open>\<open>text.trim()\<close> on whatever \<open>parts[0].text\<close> is.\<close>

fun callTrim :: "string \<Rightarrow> json option \<Rightarrow> js_error + ustring" where
  "callTrim expression None = Inl (cannotRead ''undefined'' ''trim'')"
| "callTrim expression (Some JNull) = Inl (cannotRead ''null'' ''trim'')"
| "callTrim expression (Some (JString s)) = Inr (trim s)"
| "callTrim expression (Some v) = Inl (notAFunction (expression @ ''.trim''))"

subsection \<open>\<open>transformArticleWithGemini\<close>\<close>

text \<open>
  Lines 63 to 77 for the title and 101 to 115 for the lyrics are the same code on
  different variables: the default text, the read of \<open>result.error\<close> (for the log), the guard on
  the shape of the response, and the first candidate's trimmed text. \<open>name\<close> is the name
  of the result variable.
\<close>

definition firstCandidateText :: "conversion \<Rightarrow> string \<Rightarrow> ustring \<Rightarrow> json \<Rightarrow> js_error + ustring" where
  "firstCandidateText conv name fallback result =
     bindE (getProp ''error'' (Some result)) (\<lambda>err.
     bindE (getProp ''candidates'' (Some result)) (\<lambda>candidates.
       if \<not> toBoolean candidates then Inr fallback else
     bindE (getProp ''length'' candidates) (\<lambda>n.
     bindE (greaterThanZero conv n) (\<lambda>nonEmpty.
       if \<not> nonEmpty then Inr fallback else
     bindE (getProp ''0'' candidates) (\<lambda>candidate.
     bindE (getProp ''content'' candidate) (\<lambda>content.
       if \<not> toBoolean content then Inr fallback else
     bindE (getProp ''parts'' content) (\<lambda>parts.
       if \<not> toBoolean parts then Inr fallback else
     bindE (getProp ''length'' parts) (\<lambda>m.
     bindE (greaterThanZero conv m) (\<lambda>hasPart.
       if \<not> hasPart then Inr fallback else
     bindE (getProp ''0'' parts) (\<lambda>part.
     bindE (getProp ''text'' part) (\<lambda>txt.
       callTrim (name @ ''.candidates[0].content.parts[0].text'') txt)))))))))))"

text \<open>
  The body of a request: \<open>contents\<close> holds one message of one part. URL, method and
  headers are the same for every request.
\<close>

record payload =
  role :: string
  parts_text :: ustring
  temperature :: rat
  maxOutputTokens :: nat

definition moviePrompt :: "ustring \<Rightarrow> ustring \<Rightarrow> ustring" where
  "moviePrompt newsTitle newsBody =
     js ''Given the following news article title and content, suggest a catchy and dramatic Bollywood movie title (Hindi or English, but Bollywood-themed) that captures its essence. Provide only the title, nothing else.\<newline>\<newline>        Article Title: \"''
     @ newsTitle
     @ js ''\"\<newline>        Article Content: \"''
     @ substring0 500 newsBody
     @ js ''...\"''"

definition moviePayload :: "ustring \<Rightarrow> ustring \<Rightarrow> payload" where
  "moviePayload newsTitle newsBody =
     \<lparr>role = ''user'', parts_text = moviePrompt newsTitle newsBody,
      temperature = 7 / 10, maxOutputTokens = 50\<rparr>"

definition songPrompt :: "ustring \<Rightarrow> ustring \<Rightarrow> ustring" where
  "songPrompt newsTitle newsBody =
     js ''Based on the following news article, write a short, fictional Bollywood song (2-3 stanzas with a chorus) that captures its main theme, emotions, or narrative. Use Bollywood song conventions (e.g., mix of Hindi/English, dramatic themes, relatable emotions). Focus on the core message.\<newline>\<newline>        Article Title: \"''
     @ newsTitle
     @ js ''\"\<newline>        Article Content: \"''
     @ substring0 1000 newsBody
     @ js ''...\"''"

definition songPayload :: "ustring \<Rightarrow> ustring \<Rightarrow> payload" where
  "songPayload newsTitle newsBody =
     \<lparr>role = ''user'', parts_text = songPrompt newsTitle newsBody,
      temperature = 9 / 10, maxOutputTokens = 500\<rparr>"

text \<open>
  What one \<open>await fetch(...)\<close> followed by \<open>await response.json()\<close> comes to: the fetch
  rejects, the body is no JSON, or a value. The network is a parameter.
\<close>

datatype fetch_outcome =
    FetchRejected js_error
  | JsonRejected js_error
  | Parsed json

type_synonym network = "payload \<Rightarrow> fetch_outcome"

definition defaultTitle :: ustring where
  "defaultTitle = js ''A Filmy Twist''"

definition defaultLyrics :: ustring where
  "defaultLyrics = js ''A melodious tale awaits...''"

text \<open>
  The \<open>try\<close> block: its completion (\<open>Inl\<close> for a thrown error) and the requests issued
  until then, in order.
\<close>

definition tryBlock ::
    "conversion \<Rightarrow> network \<Rightarrow> ustring \<Rightarrow> ustring \<Rightarrow> (js_error + transform_response) \<times> payload list" where
  "tryBlock conv fetch newsTitle newsBody =
     (let movie = moviePayload newsTitle newsBody;
          song = songPayload newsTitle newsBody
      in case fetch movie of
           FetchRejected e \<Rightarrow> (Inl e, [movie])
         | JsonRejected e \<Rightarrow> (Inl e, [movie])
         | Parsed movieResult \<Rightarrow>
             (case firstCandidateText conv ''movieResult'' defaultTitle movieResult of
                Inl e \<Rightarrow> (Inl e, [movie])
              | Inr generatedMovieTitle \<Rightarrow>
                  (case fetch song of
                     FetchRejected e \<Rightarrow> (Inl e, [movie, song])
                   | JsonRejected e \<Rightarrow> (Inl e, [movie, song])
                   | Parsed songResult \<Rightarrow>
                       (case firstCandidateText conv ''songResult'' defaultLyrics songResult of
                          Inl e \<Rightarrow> (Inl e, [movie, song])
                        | Inr generatedSongLyrics \<Rightarrow>
                            (Inr (Succeeded generatedMovieTitle generatedSongLyrics),
                             [movie, song])))))"

text \<open>\<open>{ success: false, error: error.message || fallback }\<close>.\<close>

definition failure :: "js_error \<Rightarrow> ustring \<Rightarrow> transform_response" where
  "failure e fallback = Failed (Some (if message e \<noteq> [] then message e else fallback))"

text \<open>
  The promise the function returns settles with \<open>Inr\<close> (fulfilled) or \<open>Inl\<close> (rejected);
  the second component is the list of requests issued.
\<close>

definition transformArticleWithGemini ::
    "conversion \<Rightarrow> network \<Rightarrow> ustring \<Rightarrow> ustring \<Rightarrow> (js_error + transform_response) \<times> payload list" where
  "transformArticleWithGemini conv fetch newsTitle newsBody =
     (case tryBlock conv fetch newsTitle newsBody of
        (Inr response, requests) \<Rightarrow> (Inr response, requests)
      | (Inl e, requests) \<Rightarrow>
          (Inr (failure e (js ''Network or API response parsing error.'')), requests))"

text \<open>
  The listener of \<open>chrome.runtime.onMessage\<close>: the result is the argument of
  \<open>sendResponse\<close>, \<open>None\<close> when the listener does not answer the message.
\<close>

definition onMessage :: "conversion \<Rightarrow> network \<Rightarrow> transform_request \<Rightarrow> transform_response option" where
  "onMessage conv fetch request =
     (if action request = ''transformArticle''
      then (case fst (transformArticleWithGemini conv fetch (articleTitle request)
                        (articleBody request)) of
              Inr response \<Rightarrow> Some response
            | Inl e \<Rightarrow> Some (failure e (js ''An unexpected error occurred during API call.'')))
      else None)"

section \<open>Notions used in the statements\<close>

text \<open>
  \<open>prune p\<close> takes every element that satisfies \<open>p\<close> out of a forest, at any depth;
  \<open>pageContent\<close> is the document apart from the notification boxes, the elements with
  the id \<open>extensionMessageBox\<close>.
\<close>

fun prune :: "(node \<Rightarrow> bool) \<Rightarrow> node list \<Rightarrow> node list" where
  "prune p [] = []"
| "prune p (Text s # ns) = Text s # prune p ns"
| "prune p (Element t c a s v kids # ns) =
     (if p (Element t c a s v kids) then prune p ns
      else Element t c a s v (prune p kids) # prune p ns)"

definition pageContent :: "document \<Rightarrow> document" where
  "pageContent d = \<lparr>head = prune (hasId ''extensionMessageBox'') (head d),
                     body = prune (hasId ''extensionMessageBox'') (body d)\<rparr>"

text \<open>A query that looks at the element itself, not below it.\<close>

definition shallow :: "(node \<Rightarrow> bool) \<Rightarrow> bool" where
  "shallow p = (\<forall>t c a s v k k'. p (Element t c a s v k) = p (Element t c a s v k'))"

text \<open>
  Places in a forest: \<open>[i]\<close> is the node of index \<open>i\<close>, \<open>i # path\<close> the place \<open>path\<close> among
  the children of that node. \<open>nodeAt\<close> reads the node at a place, \<open>putAt\<close> puts a node there
  and leaves every other place as it is, \<open>firstPath p\<close> is the place of the first element in
  tree order that satisfies \<open>p\<close>.
\<close>

fun nodeAt :: "nat list \<Rightarrow> node list \<Rightarrow> node option" where
  "nodeAt [] ns = None"
| "nodeAt [i] ns = (if i < length ns then Some (ns ! i) else None)"
| "nodeAt (i # j # path) ns =
     (if i < length ns then nodeAt (j # path) (childNodes (ns ! i)) else None)"

fun putAt :: "nat list \<Rightarrow> node \<Rightarrow> node list \<Rightarrow> node list" where
  "putAt [] n ns = ns"
| "putAt [i] n ns = ns[i := n]"
| "putAt (i # j # path) n ns =
     (if i < length ns
      then (case ns ! i of
              Text s \<Rightarrow> ns
            | Element t c a s v kids \<Rightarrow> ns[i := Element t c a s v (putAt (j # path) n kids)])
      else ns)"

fun below :: "nat list \<Rightarrow> nat list" where
  "below [] = []"
| "below (i # path) = Suc i # path"

fun firstPath :: "(node \<Rightarrow> bool) \<Rightarrow> node list \<Rightarrow> nat list option" where
  "firstPath p [] = None"
| "firstPath p (Text s # ns) = map_option below (firstPath p ns)"
| "firstPath p (Element t c a s v kids # ns) =
     (if p (Element t c a s v kids) then Some [0]
      else (case firstPath p kids of
              Some path \<Rightarrow> Some (0 # path)
            | None \<Rightarrow> map_option below (firstPath p ns)))"

text \<open>The same for a document, whose head comes before its body.\<close>

datatype place = InHead "nat list" | InBody "nat list"

definition firstPlace :: "(node \<Rightarrow> bool) \<Rightarrow> document \<Rightarrow> place option" where
  "firstPlace p d =
     (case firstPath p (head d) of
        Some path \<Rightarrow> Some (InHead path)
      | None \<Rightarrow> map_option InBody (firstPath p (body d)))"

fun elementAt :: "place \<Rightarrow> document \<Rightarrow> node option" where
  "elementAt (InHead path) d = nodeAt path (head d)"
| "elementAt (InBody path) d = nodeAt path (body d)"

fun replaceAt :: "place \<Rightarrow> node \<Rightarrow> document \<Rightarrow> document" where
  "replaceAt (InHead path) n d = d\<lparr>head := putAt path n (head d)\<rparr>"
| "replaceAt (InBody path) n d = d\<lparr>body := putAt path n (body d)\<rparr>"

text \<open>
  One call of \<open>transformArticle\<close> that is awaited: the invocation and, when it has sent a
  request, the delivery of the response to it.
\<close>

definition awaitTransformArticle :: "htmlParser \<Rightarrow> transform_response option \<Rightarrow> page \<Rightarrow> page" where
  "awaitTransformArticle parse response pg =
     (let pg' = step parse Invoke pg in
      if pending pg < pending pg' then step parse (Deliver response) pg' else pg')"

text \<open>
  A response object in which a piece on the way to the text is missing: no \<open>candidates\<close>
  or an empty array of them, a first candidate without \<open>content\<close>, a content without
  \<open>parts\<close> or with an empty array of them. The error object of the API is of this kind.
\<close>

fun lacksParts :: "json \<Rightarrow> bool" where
  "lacksParts (JObject kvs) =
     (case map_of kvs ''parts'' of
        None \<Rightarrow> True
      | Some (JArray []) \<Rightarrow> True
      | Some v \<Rightarrow> False)"
| "lacksParts v = False"

fun lacksContent :: "json \<Rightarrow> bool" where
  "lacksContent (JObject kvs) =
     (case map_of kvs ''content'' of
        None \<Rightarrow> True
      | Some v \<Rightarrow> lacksParts v)"
| "lacksContent v = False"

fun candidateLess :: "json \<Rightarrow> bool" where
  "candidateLess (JObject kvs) =
     (case map_of kvs ''candidates'' of
        None \<Rightarrow> True
      | Some (JArray []) \<Rightarrow> True
      | Some (JArray (candidate # others)) \<Rightarrow> lacksContent candidate
      | Some v \<Rightarrow> False)"
| "candidateLess v = False"

text \<open>
  The text of a response that has one: the string \<open>text\<close> of the first part of the
  content of the first candidate, whatever else the objects hold.
\<close>

fun partText :: "json \<Rightarrow> ustring option" where
  "partText (JObject kvs) =
     (case map_of kvs ''text'' of Some (JString s) \<Rightarrow> Some s | v \<Rightarrow> None)"
| "partText v = None"

fun contentText :: "json \<Rightarrow> ustring option" where
  "contentText (JObject kvs) =
     (case map_of kvs ''parts'' of Some (JArray (part # others)) \<Rightarrow> partText part | v \<Rightarrow> None)"
| "contentText v = None"

fun firstCandidate :: "json \<Rightarrow> ustring option" where
  "firstCandidate (JObject kvs) =
     (case map_of kvs ''content'' of Some c \<Rightarrow> contentText c | None \<Rightarrow> None)"
| "firstCandidate v = None"

fun candidateText :: "json \<Rightarrow> ustring option" where
  "candidateText (JObject kvs) =
     (case map_of kvs ''candidates'' of
        Some (JArray (candidate # others)) \<Rightarrow> firstCandidate candidate
      | v \<Rightarrow> None)"
| "candidateText v = None"

text \<open>The documented shape of a response that carries a text.\<close>

definition withText :: "ustring \<Rightarrow> json" where
  "withText s =
     JObject [(''candidates'',
       JArray [JObject [(''content'',
         JObject [(''parts'', JArray [JObject [(''text'', JString s)]])])]])]"

section \<open>Example inputs\<close>

text \<open>A page with a heading and an article of one paragraph and one caption of 30 characters.\<close>

definition storyParagraph :: node where
  "storyParagraph = Element ''p'' [] [] [] True
     [Text (js ''The local dog, a golden retriever named Buddy, won the national dog show.'')]"

definition caption :: node where
  "caption = Element ''p'' [] [] [] True [Text (js ''Buddy with his trophy (photo).'')]"

definition examplePage :: document where
  "examplePage =
     \<lparr>head = [Element ''title'' [] [] [] False [Text (js ''News'')]],
      body = [Element ''h1'' [] [] [] True [Text (js ''Dog wins show'')],
              Element ''article'' [] [] [] True [storyParagraph, caption]]\<rparr>"

text \<open>A page whose article holds its text directly, without paragraph elements.\<close>

definition bareArticle :: node where
  "bareArticle = Element ''article'' [] [] [] True
     [Text (js ''The local dog, a golden retriever named Buddy, won the national dog show on Sunday, to the delight of the whole town.'')]"

definition bareArticlePage :: document where
  "bareArticlePage =
     \<lparr>head = [], body = [Element ''h1'' [] [] [] True [Text (js ''Dog wins show'')], bareArticle]\<rparr>"

text \<open>
  A page whose only heading holds white space, while the \<open>og:title\<close> tag and the
  \<open>title\<close> element carry the title.
\<close>

definition blankHeadingPage :: document where
  "blankHeadingPage =
     \<lparr>head = [Element ''title'' [] [] [] False [Text (js ''Dog wins show - News'')],
              Element ''meta'' [] [(''property'', js ''og:title''), (''content'', js ''Dog wins show'')]
                [] False []],
      body = [Element ''h1'' [] [] [] True [Text (js ''   '')],
              Element ''article'' [] [] [] True [storyParagraph]]\<rparr>"

definition emptyPage :: document where
  "emptyPage = \<lparr>head = [], body = []\<rparr>"

text \<open>A stand-in for the fragment parser that keeps the markup as one text node.\<close>

definition textParser :: htmlParser where
  "textParser markup = [Text markup]"

definition freshPage :: page where
  "freshPage = \<lparr>doc = examplePage, isTransformed = False, outbox = [], pending = 0\<rparr>"

text \<open>
  An error text that is markup, and a parser that makes of the markup of its notification
  what the fragment parsing of HTML makes of it: the \<open>textarea\<close> takes the rest of the
  template as its text, up to the end.
\<close>

definition markupError :: ustring where
  "markupError = js ''<textarea>''"

definition swallowedTemplate :: ustring where
  "swallowedTemplate =
     js ''</span>\<newline>            <button id=\"closeMessageBox\" class=\"ml-4 text-white hover:text-gray-200 font-bold text-xl leading-none\">''
     @ [0xD7] @ js ''</button>\<newline>        </div>\<newline>    ''"

definition textareaParser :: htmlParser where
  "textareaParser markup =
     (if markup =
          js ''\<newline>        <div class=\"flex items-center justify-between\">\<newline>            <span>Transformation failed: <textarea></span>\<newline>            <button id=\"closeMessageBox\" class=\"ml-4 text-white hover:text-gray-200 font-bold text-xl leading-none\">&times;</button>\<newline>        </div>\<newline>    ''
      then [Text (js ''\<newline>        ''),
            Element ''div'' [''flex'', ''items-center'', ''justify-between''] [] [] True
              [Text (js ''\<newline>            ''),
               Element ''span'' [] [] [] True
                 [Text (js ''Transformation failed: ''),
                  Element ''textarea'' [] [] [] True [Text swallowedTemplate]]]]
      else [Text markup])"

text \<open>A reply of the API with a text, as the service sends it.\<close>

definition serviceReply :: json where
  "serviceReply =
     JObject
       [(''candidates'',
         JArray [JObject [(''content'',
                           JObject [(''parts'', JArray [JObject [(''text'', JString (js ''Sholay\<newline>''))]]),
                                    (''role'', JString (js ''model''))]),
                          (''finishReason'', JString (js ''STOP''))]]),
        (''usageMetadata'', JObject [(''totalTokenCount'', JNumber 42)])]"

text \<open>A conversion for which every string, array and object is not a number.\<close>

definition nanConversion :: conversion where
  "nanConversion v = Inr False"

text \<open>
  Networks: the title call (the one with 50 output tokens) gets a body that is no JSON;
  both calls get the error object of the API; the fetch is rejected with an error that has
  no message.
\<close>

definition brokenTitleCall :: network where
  "brokenTitleCall request =
     (if maxOutputTokens request = 50
      then JsonRejected (Error (js ''Unexpected token < in JSON at position 0''))
      else Parsed (withText (js ''la la la'')))"

definition apiError :: json where
  "apiError =
     JObject [(''error'', JObject [(''code'', JNumber 400),
                                   (''message'', JString (js ''API key not valid'')),
                                   (''status'', JString (js ''INVALID_ARGUMENT''))])]"

definition refusingApi :: network where
  "refusingApi request = Parsed apiError"

definition healthyTitleCall :: network where
  "healthyTitleCall request =
     (if maxOutputTokens request = 50 then Parsed serviceReply else Parsed apiError)"

definition silentFailure :: network where
  "silentFailure request = FetchRejected (Error [])"

section \<open>Facts about the tree operations\<close>

lemma find_append_cases:
  "find p (xs @ ys) = (case find p xs of None \<Rightarrow> find p ys | Some x \<Rightarrow> Some x)"
  by (induction xs) auto

lemma forest_Nil [simp]: "forest [] = []"
  by (simp add: forest_def)

lemma forest_Cons [simp]: "forest (n # ns) = subtree n @ forest ns"
  by (simp add: forest_def)

lemma forest_append [simp]: "forest (xs @ ys) = forest xs @ forest ys"
  by (simp add: forest_def)

lemma subtree_Element: "subtree (Element t c a s v kids) = Element t c a s v kids # forest kids"
  by (simp add: forest_def)

lemma alterFirst_None_iff: "alterFirst p f ns = None \<longleftrightarrow> find p (forest ns) = None"
  by (induction p f ns rule: alterFirst.induct)
     (auto simp: find_append_cases subtree_Element simp del: subtree.simps(2) split: option.splits)

lemma prune_append: "prune p (xs @ ys) = prune p xs @ prune p ys"
  by (induction p xs rule: prune.induct) auto

lemma shallowD: "shallow p \<Longrightarrow> p (Element t c a s v k) = p (Element t c a s v k')"
  unfolding shallow_def by blast

lemma prune_alterFirst_remove:
  "shallow p \<Longrightarrow> alterFirst p (\<lambda>e. []) ns = Some ns' \<Longrightarrow> prune p ns' = prune p ns"
proof (induction p "\<lambda>e::node. []::node list" ns arbitrary: ns' rule: alterFirst.induct)
  case (1 p)
  then show ?case by simp
next
  case (2 p s ns)
  then show ?case by (auto split: option.splits)
next
  case (3 p t c a s v kids ns)
  show ?case
  proof (cases "p (Element t c a s v kids)")
    case True
    with "3.prems" show ?thesis by simp
  next
    case False
    show ?thesis
    proof (cases "alterFirst p (\<lambda>e. []) kids")
      case None
      with False "3.prems" "3.hyps"(2) show ?thesis
        by (auto split: option.splits)
    next
      case (Some kids')
      have "\<not> p (Element t c a s v kids')"
        using False shallowD [OF "3.prems"(1), of t c a s v kids kids'] by simp
      with False Some "3.prems" "3.hyps"(1) show ?thesis
        by auto
    qed
  qed
qed

lemma shallow_hasId: "shallow (hasId i)"
  by (simp add: shallow_def hasId_def getAttribute_def)

lemma shallow_matches: "shallow (matches sel)"
  by (cases sel) (simp_all add: shallow_def getAttribute_def)

lemma pageContent_removeExistingBox: "pageContent (removeExistingBox d) = pageContent d"
proof (cases "alterFirst (hasId ''extensionMessageBox'') (\<lambda>e. []) (head d)")
  case None
  show ?thesis
  proof (cases "alterFirst (hasId ''extensionMessageBox'') (\<lambda>e. []) (body d)")
    case None2: None
    with None None2 show ?thesis
      by (simp add: removeExistingBox_def alterFirstDoc_def)
  next
    case (Some b)
    from prune_alterFirst_remove [OF shallow_hasId Some] None Some show ?thesis
      by (simp add: removeExistingBox_def alterFirstDoc_def pageContent_def)
  qed
next
  case (Some h)
  from prune_alterFirst_remove [OF shallow_hasId Some] Some show ?thesis
    by (simp add: removeExistingBox_def alterFirstDoc_def pageContent_def)
qed

lemma hasId_messageBox: "hasId ''extensionMessageBox'' (messageBox parse m t)"
  by (simp add: hasId_def messageBox_def getAttribute_def)

lemma prune_single: "p n \<Longrightarrow> isElement n \<Longrightarrow> prune p [n] = []"
  by (cases n) simp_all

lemma pageContent_showMessageBox: "pageContent (showMessageBox parse m t d) = pageContent d"
proof -
  have "prune (hasId ''extensionMessageBox'') [messageBox parse m t] = []"
    by (rule prune_single) (simp_all add: hasId_messageBox, simp add: messageBox_def)
  then have "pageContent (showMessageBox parse m t d) = pageContent (removeExistingBox d)"
    by (simp add: showMessageBox_def Let_def pageContent_def prune_append)
  then show ?thesis by (simp add: pageContent_removeExistingBox)
qed

lemma below_nonempty: "path \<noteq> [] \<Longrightarrow> below path \<noteq> []"
  by (cases path) simp_all

lemma firstPath_nonempty: "firstPath p ns = Some path \<Longrightarrow> path \<noteq> []"
  by (induction p ns arbitrary: path rule: firstPath.induct)
     (auto split: if_splits option.splits simp: below_nonempty)

lemma nodeAt_below: "path \<noteq> [] \<Longrightarrow> nodeAt (below path) (x # ns) = nodeAt path ns"
proof (cases path)
  case (Cons i rest)
  then show ?thesis by (cases rest) simp_all
qed simp

lemma putAt_below: "path \<noteq> [] \<Longrightarrow> putAt (below path) n (x # ns) = x # putAt path n ns"
proof (cases path)
  case (Cons i rest)
  then show ?thesis by (cases rest) (simp_all split: node.splits)
qed simp

lemma firstPath_None_iff: "firstPath p ns = None \<longleftrightarrow> find p (forest ns) = None"
  by (induction p ns rule: firstPath.induct)
     (auto simp: find_append_cases subtree_Element simp del: subtree.simps(2) split: option.splits)

lemma nodeAt_child:
  "path \<noteq> [] \<Longrightarrow> nodeAt (0 # path) (Element t c a s v kids # ns) = nodeAt path kids"
  by (cases path) simp_all

lemma putAt_child:
  "path \<noteq> [] \<Longrightarrow>
   putAt (0 # path) n (Element t c a s v kids # ns) = Element t c a s v (putAt path n kids) # ns"
  by (cases path) simp_all

lemma alterFirst_putAt:
  "alterFirst p (\<lambda>e. [g e]) ns = Some ns' \<Longrightarrow>
   \<exists>path e. firstPath p ns = Some path \<and> nodeAt path ns = Some e
     \<and> find p (forest ns) = Some e \<and> ns' = putAt path (g e) ns"
proof (induction p "\<lambda>e. [g e]" ns arbitrary: ns' rule: alterFirst.induct)
  case (1 p)
  then show ?case by simp
next
  case (2 p s ns)
  from "2.prems" obtain ms where ms: "alterFirst p (\<lambda>e. [g e]) ns = Some ms"
    and ns': "ns' = Text s # ms"
    by auto
  from "2.hyps" [OF ms] obtain path e where found: "firstPath p ns = Some path"
    "nodeAt path ns = Some e" "find p (forest ns) = Some e" "ms = putAt path (g e) ns"
    by blast
  from found(1) have "path \<noteq> []" by (rule firstPath_nonempty)
  with found ns' show ?case
    by (simp add: nodeAt_below putAt_below)
next
  case (3 p t c a s v kids ns)
  let ?e = "Element t c a s v kids"
  show ?case
  proof (cases "p ?e")
    case True
    with "3.prems" have "ns' = g ?e # ns" by simp
    with True show ?thesis by (simp add: subtree_Element del: subtree.simps(2))
  next
    case False
    show ?thesis
    proof (cases "alterFirst p (\<lambda>e. [g e]) kids")
      case None
      with False "3.prems" obtain ms where ms: "alterFirst p (\<lambda>e. [g e]) ns = Some ms"
        and ns': "ns' = ?e # ms"
        by auto
      from "3.hyps"(2) [OF False None ms] obtain path e where found: "firstPath p ns = Some path"
        "nodeAt path ns = Some e" "find p (forest ns) = Some e" "ms = putAt path (g e) ns"
        by blast
      from found(1) have path: "path \<noteq> []" by (rule firstPath_nonempty)
      from None have kids: "find p (forest kids) = None" "firstPath p kids = None"
        by (simp_all add: alterFirst_None_iff firstPath_None_iff)
      from found path kids False ns' show ?thesis
        by (simp add: nodeAt_below putAt_below subtree_Element find_append_cases
            del: subtree.simps(2))
    next
      case (Some kids')
      with False "3.prems" have ns': "ns' = Element t c a s v kids' # ns"
        by auto
      from "3.hyps"(1) [OF False Some] obtain path e where found: "firstPath p kids = Some path"
        "nodeAt path kids = Some e" "find p (forest kids) = Some e" "kids' = putAt path (g e) kids"
        by blast
      from found(1) have path: "path \<noteq> []" by (rule firstPath_nonempty)
      from found path False ns' show ?thesis
        by (simp add: nodeAt_child putAt_child subtree_Element find_append_cases
            del: subtree.simps(2))
    qed
  qed
qed

lemma last_body_showMessageBox:
  "last (body (showMessageBox parse m t d)) = messageBox parse m t"
  by (simp add: showMessageBox_def Let_def)

lemma find_Some_ex: "x \<in> set xs \<Longrightarrow> p x \<Longrightarrow> find p xs \<noteq> None"
  by (auto simp: find_None_iff)

text \<open>A plain message leaves the close button in the box: the call does not throw.\<close>

lemma showMessageBox_plain:
  assumes "plainText m"
  shows "showMessageBox_thrown parse m t d = None"
proof -
  let ?button = "Element ''button''
      [''ml-4'', ''text-white'', ''hover:text-gray-200'', ''font-bold'', ''text-xl'',
       ''leading-none'']
      [(''id'', js ''closeMessageBox'')] [] True [Text [0xD7]]"
  have "?button \<in> set (forest [messageBox parse m t])"
    using assms by (simp add: messageBox_def messageBoxTree_def textNodes_def)
  then have "?button \<in> set (all_elements (showMessageBox parse m t d))"
    by (simp add: all_elements_def showMessageBox_def Let_def)
  moreover have "hasId ''closeMessageBox'' ?button"
    by (simp add: hasId_def getAttribute_def)
  ultimately have "find (hasId ''closeMessageBox'') (all_elements (showMessageBox parse m t d)) \<noteq> None"
    by (rule find_Some_ex)
  then show ?thesis
    by (auto simp: showMessageBox_thrown_def split: option.splits)
qed

lemma plain_progress: "plainText (js ''Transforming article... Please wait for the magic!'')"
  by code_simp

lemma plain_success: "plainText (js ''Article transformed into a Bollywood masterpiece!'')"
  by code_simp

lemma plain_missing:
  "plainText (js ''Could not find enough article content to transform. Try a different article or newspaper.'')"
  by code_simp

lemmas notices_shown =
  showMessageBox_plain [OF plain_progress] showMessageBox_plain [OF plain_success]
  showMessageBox_plain [OF plain_missing]

text \<open>The notices of the script itself are plain, so only a failure notice can throw.\<close>

lemma begin_unfolded:
  "transformArticle_begin parse pg =
     (if isTransformed pg then pg
      else (case (getArticleTitle (doc pg), getArticleBody (doc pg)) of
              (Some t, Some b) \<Rightarrow>
                if t \<noteq> [] \<and> b \<noteq> []
                then pg\<lparr>doc := showMessageBox parse
                                (js ''Transforming article... Please wait for the magic!'')
                                ''success'' (doc pg),
                        outbox := outbox pg @
                                [\<lparr>action = ''transformArticle'', articleTitle = t,
                                  articleBody = b\<rparr>],
                        pending := Suc (pending pg)\<rparr>
                else pg\<lparr>doc := showMessageBox parse
                                (js ''Could not find enough article content to transform. Try a different article or newspaper.'')
                                ''error'' (doc pg)\<rparr>
            | _ \<Rightarrow>
                pg\<lparr>doc := showMessageBox parse
                           (js ''Could not find enough article content to transform. Try a different article or newspaper.'')
                           ''error'' (doc pg)\<rparr>))"
  by (simp add: transformArticle_begin_def Let_def notices_shown
      cong: if_cong option.case_cong split: option.splits)

lemma resume_succeeded:
  "transformArticle_resume parse (Some (Succeeded t l)) pg =
     (pg\<lparr>doc := showMessageBox parse
                  (js ''Article transformed into a Bollywood masterpiece!'') ''success''
                  (updateArticleBody parse l (updateArticleTitle t (doc pg))),
         isTransformed := True\<rparr>, None)"
  by (simp add: transformArticle_resume_def Let_def notices_shown)

lemma resume_failed:
  "transformArticle_resume parse (Some (Failed e)) pg =
     (pg\<lparr>doc := showMessageBox parse (js ''Transformation failed: '' @ errorText e)
                  ''error'' (doc pg)\<rparr>,
      showMessageBox_thrown parse (js ''Transformation failed: '' @ errorText e)
        ''error'' (doc pg))"
  by (simp add: transformArticle_resume_def)

lemma resume_undefined:
  "transformArticle_resume parse None pg = (pg, Some (cannotRead ''undefined'' ''error''))"
  by (simp add: transformArticle_resume_def)

lemmas resume_unfolded = resume_succeeded resume_failed resume_undefined





lemma begin_when_transformed: "isTransformed pg \<Longrightarrow> transformArticle_begin parse pg = pg"
  by (simp add: begin_unfolded)




lemma alterFirstDoc_None_iff:
  "alterFirstDoc p f d = None \<longleftrightarrow> find p (all_elements d) = None"
proof -
  have "alterFirstDoc p f d = None \<longleftrightarrow>
        alterFirst p f (head d) = None \<and> alterFirst p f (body d) = None"
    by (simp add: alterFirstDoc_def split: option.splits)
  then show ?thesis
    by (simp add: alterFirst_None_iff all_elements_def find_append_cases split: option.splits)
qed

lemma findUpdateContainer_Some:
  "findUpdateContainer d sels = Some sel \<Longrightarrow>
   sel \<in> set sels \<and>
   (\<exists>e. querySelector sel d = Some e \<and> offsetParent e \<and> qualifies sel e)"
  by (induction sels) (auto split: option.splits if_splits)

lemma alterFirstDoc_replaceAt:
  assumes "alterFirstDoc p (\<lambda>e. [g e]) d = Some d'"
  shows "\<exists>place e. firstPlace p d = Some place \<and> elementAt place d = Some e
           \<and> find p (all_elements d) = Some e \<and> d' = replaceAt place (g e) d"
proof (cases "alterFirst p (\<lambda>e. [g e]) (head d)")
  case None
  with assms obtain b where b: "alterFirst p (\<lambda>e. [g e]) (body d) = Some b"
    and d': "d' = d\<lparr>body := b\<rparr>"
    by (auto simp: alterFirstDoc_def)
  from alterFirst_putAt [OF b] obtain path e where found: "firstPath p (body d) = Some path"
    "nodeAt path (body d) = Some e" "find p (forest (body d)) = Some e"
    "b = putAt path (g e) (body d)"
    by blast
  from None have "firstPath p (head d) = None" "find p (forest (head d)) = None"
    by (simp_all add: alterFirst_None_iff firstPath_None_iff)
  with found d' have "firstPlace p d = Some (InBody path) \<and> elementAt (InBody path) d = Some e
      \<and> find p (all_elements d) = Some e \<and> d' = replaceAt (InBody path) (g e) d"
    by (simp add: firstPlace_def all_elements_def find_append_cases)
  then show ?thesis by blast
next
  case (Some h)
  with assms have d': "d' = d\<lparr>head := h\<rparr>"
    by (simp add: alterFirstDoc_def)
  from alterFirst_putAt [OF Some] obtain path e where found: "firstPath p (head d) = Some path"
    "nodeAt path (head d) = Some e" "find p (forest (head d)) = Some e"
    "h = putAt path (g e) (head d)"
    by blast
  with d' have "firstPlace p d = Some (InHead path) \<and> elementAt (InHead path) d = Some e
      \<and> find p (all_elements d) = Some e \<and> d' = replaceAt (InHead path) (g e) d"
    by (simp add: firstPlace_def all_elements_def find_append_cases)
  then show ?thesis by blast
qed

lemma trim_Nil: "trim [] = []"
  by (simp add: trim_def)

lemma lyricsContainer_written_out:
  "lyricsContainer l =
     Element ''div''
       [''bollywood-lyrics-container'', ''text-center'', ''py-8'', ''px-4'',
        ''bg-gradient-to-r'', ''from-purple-100'', ''to-pink-100'', ''rounded-lg'',
        ''shadow-lg'', ''my-8'', ''mx-auto'', ''max-w-2xl'']
       []
       [(''fontFamily'', [CHR 0x27] @ ''Dancing Script'' @ [CHR 0x27] @ '', cursive''),
        (''fontSize'', ''1.2rem''), (''lineHeight'', ''1.8''), (''color'', ''#4A0033''),
        (''width'', ''100%'')]
       True
       (map (\<lambda>line. Element ''p'' [''my-2''] [] [] True [Text line])
          (filter (\<lambda>line. trim line \<noteq> []) (split_on 0x0A l))
        @ [Element ''p'' [''mt-6'', ''italic'', ''text-gray-600'', ''text-sm''] [] [] True
             [Text (0x2014 # js '' Your Bollywood News Transformer'')]])"
proof -
  have "map lyricParagraph (lyricLines l)
        = map (\<lambda>line. Element ''p'' [''my-2''] [] [] True [Text line])
            (filter (\<lambda>line. trim line \<noteq> []) (split_on 0x0A l))"
    unfolding lyricLines_def
    by (rule map_cong) (auto simp: lyricParagraph_def setTextContent_def trim_Nil)
  then show ?thesis
    by (simp add: lyricsContainer_def signature_def signatureText_def setTextContent_def)
qed

lemma matches_isElement: "matches sel e \<Longrightarrow> isElement e"
  by (cases sel) simp_all

lemma updateArticleBody_in_place:
  assumes "findUpdateContainer d articleBodyContainerSelectors = Some sel"
  shows "\<exists>place t c a s v kids.
           firstPlace (matches sel) d = Some place
           \<and> elementAt place d = Some (Element t c a s v kids)
           \<and> querySelector sel d = Some (Element t c a s v kids)
           \<and> v \<and> qualifies sel (Element t c a s v kids)
           \<and> updateArticleBody parse l d =
               (replaceAt place (Element t c a s v [lyricsContainer l]) d)
               \<lparr>head := head (replaceAt place (Element t c a s v [lyricsContainer l]) d)
                          @ [fontLink]\<rparr>"
proof -
  let ?g = "setChildNodes [lyricsContainer l]"
  from findUpdateContainer_Some [OF assms]
  obtain e where e: "querySelector sel d = Some e" "offsetParent e" "qualifies sel e"
    by blast
  from e(1) have "alterFirstDoc (matches sel) (\<lambda>e. [?g e]) d \<noteq> None"
    by (simp add: alterFirstDoc_None_iff querySelector_def)
  then obtain d' where d': "alterFirstDoc (matches sel) (\<lambda>e. [?g e]) d = Some d'"
    by blast
  from alterFirstDoc_replaceAt [OF d'] e(1)
  obtain place where place: "firstPlace (matches sel) d = Some place"
    "elementAt place d = Some e" "d' = replaceAt place (?g e) d"
    by (auto simp: querySelector_def)
  from e(1) have "matches sel e"
    by (auto simp: querySelector_def dest: find_Some_iff [THEN iffD1])
  then have "isElement e" by (rule matches_isElement)
  then obtain t c a s v kids where shape: "e = Element t c a s v kids"
    by (cases e) simp_all
  have "updateArticleBody parse l d = d'\<lparr>head := head d' @ [fontLink]\<rparr>"
    using assms d' by (simp add: updateArticleBody_def)
  with place e shape show ?thesis by auto
qed

section \<open>Facts about the background script\<close>

lemma parts_lacking:
  "lacksParts c \<Longrightarrow>
   bindE (getProp ''parts'' (Some c)) (\<lambda>parts.
     if \<not> toBoolean parts then Inr fallback else
     bindE (getProp ''length'' parts) (\<lambda>m.
     bindE (greaterThanZero conv m) (\<lambda>hasPart.
       if \<not> hasPart then Inr fallback else rest parts))) = Inr fallback"
  by (cases c) (auto simp: bindE_def split: option.splits json.splits list.splits)

lemma content_lacking:
  "lacksContent candidate \<Longrightarrow>
   bindE (getProp ''content'' (Some candidate)) (\<lambda>c.
     if \<not> toBoolean c then Inr fallback else
     bindE (getProp ''parts'' c) (\<lambda>parts.
       if \<not> toBoolean parts then Inr fallback else
     bindE (getProp ''length'' parts) (\<lambda>m.
     bindE (greaterThanZero conv m) (\<lambda>hasPart.
       if \<not> hasPart then Inr fallback else rest parts)))) = Inr fallback"
proof (cases candidate)
  case (JObject kvs)
  assume candidate: "lacksContent candidate"
  show ?thesis
  proof (cases "map_of kvs ''content''")
    case None
    with JObject show ?thesis by (simp add: bindE_def)
  next
    case (Some c)
    with JObject candidate have lacking: "lacksParts c"
      by simp
    then have "toBoolean (Some c)"
      by (cases c) simp_all
    with parts_lacking [OF lacking, of fallback conv rest] JObject Some show ?thesis
      by (simp add: bindE_def)
  qed
qed simp_all

lemma firstCandidateText_candidateLess:
  "candidateLess j \<Longrightarrow> firstCandidateText conv name fallback j = Inr fallback"
proof (cases j)
  case (JObject kvs)
  assume lacking: "candidateLess j"
  show ?thesis
  proof (cases "map_of kvs ''candidates''")
    case None
    with JObject show ?thesis by (simp add: firstCandidateText_def bindE_def)
  next
    case (Some candidates)
    show ?thesis
    proof (cases candidates)
      case (JArray cs)
      show ?thesis
      proof (cases cs)
        case Nil
        with JObject Some JArray show ?thesis
          by (simp add: firstCandidateText_def bindE_def)
      next
        case (Cons candidate others)
        with JObject Some JArray lacking have "lacksContent candidate"
          by simp
        from content_lacking [OF this] JObject Some JArray Cons show ?thesis
          by (simp add: firstCandidateText_def bindE_def)
      qed
    qed (use JObject Some lacking in simp_all)
  qed
qed simp_all

lemma part_text:
  "partText part = Some s \<Longrightarrow> bindE (getProp ''text'' (Some part)) (callTrim e) = Inr (trim s)"
  by (cases part) (auto simp: bindE_def split: option.splits json.splits)

lemma content_text:
  "contentText c = Some s \<Longrightarrow>
   toBoolean (Some c) \<and>
   bindE (getProp ''parts'' (Some c)) (\<lambda>parts.
     if \<not> toBoolean parts then Inr fallback else
     bindE (getProp ''length'' parts) (\<lambda>m.
     bindE (greaterThanZero conv m) (\<lambda>hasPart.
       if \<not> hasPart then Inr fallback else
     bindE (getProp ''0'' parts) (\<lambda>part.
     bindE (getProp ''text'' part) (callTrim e))))) = Inr (trim s)"
proof (cases c)
  case (JObject kvs)
  assume "contentText c = Some s"
  with JObject obtain part others where parts: "map_of kvs ''parts'' = Some (JArray (part # others))"
    and part: "partText part = Some s"
    by (auto split: option.splits json.splits list.splits)
  from part_text [OF part, of e] JObject parts show ?thesis
    by (simp add: bindE_def)
qed simp_all

lemma candidate_text:
  "firstCandidate candidate = Some s \<Longrightarrow>
   bindE (getProp ''content'' (Some candidate)) (\<lambda>c.
     if \<not> toBoolean c then Inr fallback else
     bindE (getProp ''parts'' c) (\<lambda>parts.
       if \<not> toBoolean parts then Inr fallback else
     bindE (getProp ''length'' parts) (\<lambda>m.
     bindE (greaterThanZero conv m) (\<lambda>hasPart.
       if \<not> hasPart then Inr fallback else
     bindE (getProp ''0'' parts) (\<lambda>part.
     bindE (getProp ''text'' part) (callTrim e)))))) = Inr (trim s)"
proof (cases candidate)
  case (JObject kvs)
  assume "firstCandidate candidate = Some s"
  with JObject obtain c where c: "map_of kvs ''content'' = Some c" "contentText c = Some s"
    by (auto split: option.splits)
  from content_text [OF c(2), of fallback conv e] JObject c(1) show ?thesis
    by (simp add: bindE_def)
qed simp_all

lemma firstCandidateText_text:
  "candidateText j = Some s \<Longrightarrow> firstCandidateText conv name fallback j = Inr (trim s)"
proof (cases j)
  case (JObject kvs)
  assume "candidateText j = Some s"
  with JObject obtain candidate others where
    candidates: "map_of kvs ''candidates'' = Some (JArray (candidate # others))"
    and candidate: "firstCandidate candidate = Some s"
    by (auto split: option.splits json.splits list.splits)
  from candidate_text [OF candidate] JObject candidates show ?thesis
    by (simp add: firstCandidateText_def bindE_def)
qed simp_all

lemma candidateText_withText: "candidateText (withText s) = Some s"
  by (simp add: withText_def)

lemma firstCandidateText_withText:
  "firstCandidateText conv name fallback (withText s) = Inr (trim s)"
  by (simp add: firstCandidateText_def bindE_def withText_def)

section \<open>Facts about failure notices\<close>

text \<open>
  A failure response leaves the content of the page as it is, whatever its error text; an
  error text that is plain is shown as it is, in the \<open>span\<close> of the box, and the call
  returns.
\<close>

lemma failed_response_page_kept:
  "(let pg' = fst (transformArticle_resume parse (Some (Failed e)) pg);
        notice = js ''Transformation failed: '' @
                 (case e of None \<Rightarrow> js ''Unknown error''
                  | Some text \<Rightarrow> if text = [] then js ''Unknown error'' else text)
    in doc pg' = showMessageBox parse notice ''error'' (doc pg)
       \<and> pageContent (doc pg') = pageContent (doc pg)
       \<and> last (body (doc pg')) = messageBox parse notice ''error''
       \<and> ''bg-red-500'' \<in> set (classList (last (body (doc pg'))))
       \<and> isTransformed pg' = isTransformed pg \<and> outbox pg' = outbox pg)"
  by (cases e)
     (simp_all add: resume_failed errorText_def truthy_def Let_def
       pageContent_showMessageBox last_body_showMessageBox messageBox_def)

lemma plainText_append: "plainText (xs @ ys) \<longleftrightarrow> plainText xs \<and> plainText ys"
  by (simp add: plainText_def)

lemma plain_failure_prefix: "plainText (js ''Transformation failed: '')"
  by code_simp

lemma plain_error_is_shown:
  "plainText (errorText e) \<Longrightarrow>
   snd (transformArticle_resume parse (Some (Failed e)) pg) = None
   \<and> childNodes (last (body (doc (fst (transformArticle_resume parse (Some (Failed e)) pg)))))
       = messageBoxTree (js ''Transformation failed: '' @ errorText e)"
  by (simp add: resume_failed showMessageBox_plain plainText_append plain_failure_prefix
      last_body_showMessageBox messageBox_def)

section \<open>Facts about awaited invocations\<close>

lemma resume_content:
  "\<not> isTransformed (fst (transformArticle_resume parse r pg)) \<Longrightarrow>
   pageContent (doc (fst (transformArticle_resume parse r pg))) = pageContent (doc pg)"
  by (cases r rule: option.exhaust; cases "the r")
     (simp_all add: resume_unfolded pageContent_showMessageBox)

lemma begin_content:
  "pageContent (doc (transformArticle_begin parse pg)) = pageContent (doc pg)"
  by (simp add: begin_unfolded pageContent_showMessageBox split: option.splits)

lemma content_kept_unless_transformed:
  assumes "\<not> isTransformed (awaitTransformArticle parse r pg)"
  shows "pageContent (doc (awaitTransformArticle parse r pg)) = pageContent (doc pg)"
proof (cases "pending pg < pending (transformArticle_begin parse pg)")
  case True
  let ?pg = "(transformArticle_begin parse pg)\<lparr>pending := pending (transformArticle_begin parse pg) - 1\<rparr>"
  from True have unfolded: "awaitTransformArticle parse r pg = fst (transformArticle_resume parse r ?pg)"
    by (simp add: awaitTransformArticle_def Let_def)
  with assms have "pageContent (doc (fst (transformArticle_resume parse r ?pg))) = pageContent (doc ?pg)"
    by (simp add: resume_content)
  with unfolded show ?thesis by (simp add: begin_content)
next
  case False
  then show ?thesis by (simp add: awaitTransformArticle_def Let_def begin_content)
qed

lemma transformed_page_is_kept:
  "isTransformed pg \<Longrightarrow> awaitTransformArticle parse r pg = pg"
  by (simp add: awaitTransformArticle_def begin_when_transformed)

text \<open>
  Two invocations, the second started when the first has settled: at most one of them
  changes the content of the page.
\<close>

lemma awaited_invocations_render_once:
  "pageContent (doc (awaitTransformArticle parse r1 pg)) = pageContent (doc pg)
   \<or> awaitTransformArticle parse r2 (awaitTransformArticle parse r1 pg)
       = awaitTransformArticle parse r1 pg"
  using content_kept_unless_transformed [of parse r1 pg]
    transformed_page_is_kept [of "awaitTransformArticle parse r1 pg" parse r2]
  by blast

section \<open>The example inputs evaluated\<close>

lemma js_not_empty: "s \<noteq> [] \<Longrightarrow> js s \<noteq> []"
  by (simp add: js_def)




section \<open>The claims\<close>

subsection \<open>C1: the flag and later invocations\<close>




subsection \<open>C2: two invocations, one rendering\<close>

text \<open>
  Claim C2 says that two invocations of \<open>transformArticle\<close> in one page load rewrite
  title and body at most once. The flag is tested before the \<open>await\<close> and set after it,
  so a second invocation that starts while the first waits for its response passes the
  test: on the example page both send a request, and each response is rendered in turn,
  the heading and the article rewritten twice.
\<close>

theorem overlapping_invocations_render_twice:
  "(let pg1 = run textParser
               [Invoke, Invoke, Deliver (Some (Succeeded (js ''Sholay'') (js ''la'')))] freshPage;
        pg2 = step textParser (Deliver (Some (Succeeded (js ''Lagaan'') (js ''na'')))) pg1
    in length (outbox pg1) = 2 \<and> isTransformed pg1
       \<and> map textContent (querySelectorAll h1Selectors (doc pg1)) = [movieHeading (js ''Sholay'')]
       \<and> map textContent (querySelectorAll [Type ''article''] (doc pg1))
           = [js ''la'' @ signatureText]
       \<and> map textContent (querySelectorAll h1Selectors (doc pg2)) = [movieHeading (js ''Lagaan'')]
       \<and> map textContent (querySelectorAll [Type ''article''] (doc pg2))
           = [js ''na'' @ signatureText])"
  by code_simp

subsection \<open>C3: failures of the generation calls\<close>

text \<open>
  Claim C3 says that a malformed response does not fail the transform and that a parse
  error in one call does not keep the other call from being attempted. The body of the
  response is parsed inside the \<open>try\<close> block: when the body of the title call is no JSON,
  the result is a failure and the lyrics call is never issued.
\<close>

theorem parse_error_blocks_second_call:
  "transformArticleWithGemini nanConversion brokenTitleCall (js ''Dog wins show'') (js ''Buddy won.'')
   = (Inr (Failed (Some (js ''Unexpected token < in JSON at position 0''))),
      [moviePayload (js ''Dog wins show'') (js ''Buddy won.'')])"
  by (simp add: transformArticleWithGemini_def tryBlock_def brokenTitleCall_def moviePayload_def
      failure_def Let_def js_not_empty)

text \<open>
  Claim C3, amended: for each of the two calls, a response object in which the
  candidates, the content of the first candidate or its parts are missing or empty does
  not fail the transform. The default string stands in for that field, the other call is
  still made, and the result is a success when the other call yields a text or is of that
  kind too; the text is then that field of the result. A response yields its text, trimmed,
  whenever the first part of the content of its first candidate has a string \<open>text\<close>,
  whatever else the response holds. An exception during either request, the fetch rejected
  or the body not parsed, ends the whole operation with a failure that carries the message
  of the exception, or a fixed text when the message is empty; when the title call throws,
  the lyrics call is not issued.
\<close>

theorem orchestrator_failure_policy:
  "(fetch (moviePayload t b) = Parsed j1 \<and> candidateLess j1 \<longrightarrow>
      snd (transformArticleWithGemini conv fetch t b) = [moviePayload t b, songPayload t b]
      \<and> (\<forall>j2. fetch (songPayload t b) = Parsed j2 \<and> candidateLess j2 \<longrightarrow>
            fst (transformArticleWithGemini conv fetch t b)
              = Inr (Succeeded defaultTitle defaultLyrics))
      \<and> (\<forall>j2 lyrics. fetch (songPayload t b) = Parsed j2
            \<and> firstCandidateText conv ''songResult'' defaultLyrics j2 = Inr lyrics \<longrightarrow>
            fst (transformArticleWithGemini conv fetch t b)
              = Inr (Succeeded defaultTitle lyrics)))
   \<and> (\<forall>j1 title j2. fetch (moviePayload t b) = Parsed j1
          \<and> firstCandidateText conv ''movieResult'' defaultTitle j1 = Inr title
          \<and> fetch (songPayload t b) = Parsed j2 \<and> candidateLess j2 \<longrightarrow>
          transformArticleWithGemini conv fetch t b
            = (Inr (Succeeded title defaultLyrics), [moviePayload t b, songPayload t b]))
   \<and> (\<forall>j s. candidateText j = Some s \<longrightarrow>
          firstCandidateText conv ''movieResult'' defaultTitle j = Inr (trim s)
          \<and> firstCandidateText conv ''songResult'' defaultLyrics j = Inr (trim s))
   \<and> (\<forall>s. candidateText (withText s) = Some s)
   \<and> (\<forall>e. fetch (moviePayload t b) = FetchRejected e \<or> fetch (moviePayload t b) = JsonRejected e \<longrightarrow>
          transformArticleWithGemini conv fetch t b
            = (Inr (Failed (Some (if message e \<noteq> [] then message e
                                  else js ''Network or API response parsing error.''))),
               [moviePayload t b]))
   \<and> (\<forall>e j1 title.
          fetch (moviePayload t b) = Parsed j1
          \<and> firstCandidateText conv ''movieResult'' defaultTitle j1 = Inr title
          \<and> (fetch (songPayload t b) = FetchRejected e \<or> fetch (songPayload t b) = JsonRejected e) \<longrightarrow>
          transformArticleWithGemini conv fetch t b
            = (Inr (Failed (Some (if message e \<noteq> [] then message e
                                  else js ''Network or API response parsing error.''))),
               [moviePayload t b, songPayload t b]))"
  by (auto simp: transformArticleWithGemini_def tryBlock_def Let_def failure_def
      firstCandidateText_candidateLess firstCandidateText_text candidateText_withText
      split: fetch_outcome.splits sum.splits)

text \<open>
  The API answers both calls with its error object; and the API answers the title call with
  a reply as the service sends it, with a role, a finish reason and usage data beside the
  text, and the lyrics call with its error object.
\<close>

theorem orchestrator_failure_policy_witness:
  "refusingApi (moviePayload (js ''Dog wins show'') (js ''Buddy won.'')) = Parsed apiError
   \<and> refusingApi (songPayload (js ''Dog wins show'') (js ''Buddy won.'')) = Parsed apiError
   \<and> candidateLess apiError
   \<and> snd (transformArticleWithGemini nanConversion refusingApi (js ''Dog wins show'')
            (js ''Buddy won.''))
       = [moviePayload (js ''Dog wins show'') (js ''Buddy won.''),
          songPayload (js ''Dog wins show'') (js ''Buddy won.'')]
   \<and> fst (transformArticleWithGemini nanConversion refusingApi (js ''Dog wins show'')
            (js ''Buddy won.''))
       = Inr (Succeeded defaultTitle defaultLyrics)
   \<and> healthyTitleCall (moviePayload (js ''Dog wins show'') (js ''Buddy won.'')) = Parsed serviceReply
   \<and> healthyTitleCall (songPayload (js ''Dog wins show'') (js ''Buddy won.'')) = Parsed apiError
   \<and> candidateText serviceReply = Some (js ''Sholay\<newline>'')
   \<and> withText (js ''Sholay\<newline>'') \<noteq> serviceReply
   \<and> \<not> candidateLess serviceReply
   \<and> transformArticleWithGemini nanConversion healthyTitleCall (js ''Dog wins show'')
         (js ''Buddy won.'')
       = (Inr (Succeeded (js ''Sholay'') defaultLyrics),
          [moviePayload (js ''Dog wins show'') (js ''Buddy won.''),
           songPayload (js ''Dog wins show'') (js ''Buddy won.'')])"
proof -
  let ?t = "js ''Dog wins show''" and ?b = "js ''Buddy won.''"
  have api: "candidateLess apiError"
    by (simp add: apiError_def)
  have calls: "refusingApi (moviePayload ?t ?b) = Parsed apiError"
    "refusingApi (songPayload ?t ?b) = Parsed apiError"
    by (simp_all add: refusingApi_def)
  have healthy: "healthyTitleCall (moviePayload ?t ?b) = Parsed serviceReply"
    "healthyTitleCall (songPayload ?t ?b) = Parsed apiError"
    by (simp_all add: healthyTitleCall_def moviePayload_def songPayload_def)
  have reply: "candidateText serviceReply = Some (js ''Sholay\<newline>'')"
    by (simp add: serviceReply_def)
  have other: "withText (js ''Sholay\<newline>'') \<noteq> serviceReply" "\<not> candidateLess serviceReply"
    by (simp_all add: serviceReply_def withText_def)
  have trimmed: "trim (js ''Sholay\<newline>'') = js ''Sholay''"
    by code_simp
  note claim = orchestrator_failure_policy
  from claim [of refusingApi ?t ?b apiError nanConversion] api calls
  have refused: "snd (transformArticleWithGemini nanConversion refusingApi ?t ?b)
                   = [moviePayload ?t ?b, songPayload ?t ?b]"
    "fst (transformArticleWithGemini nanConversion refusingApi ?t ?b)
       = Inr (Succeeded defaultTitle defaultLyrics)"
    by blast+
  from claim [of healthyTitleCall ?t ?b apiError nanConversion] reply
  have "firstCandidateText nanConversion ''movieResult'' defaultTitle serviceReply
          = Inr (trim (js ''Sholay\<newline>''))"
    by blast
  with claim [of healthyTitleCall ?t ?b apiError nanConversion] healthy api
  have "transformArticleWithGemini nanConversion healthyTitleCall ?t ?b
          = (Inr (Succeeded (trim (js ''Sholay\<newline>'')) defaultLyrics),
             [moviePayload ?t ?b, songPayload ?t ?b])"
    by blast
  then have "transformArticleWithGemini nanConversion healthyTitleCall ?t ?b
          = (Inr (Succeeded (js ''Sholay'') defaultLyrics),
             [moviePayload ?t ?b, songPayload ?t ?b])"
    by (simp only: trimmed)
  with api calls healthy reply other refused show ?thesis
    by (simp only: simp_thms)
qed

subsection \<open>C4: a failure response\<close>

text \<open>
  Claim C4: given a response with \<open>success = false\<close>, the title and the body of the page
  are left as they are and a failure notification with the error text of the response is
  shown. \<open>showMessageBox\<close> takes \<open>The message to display\<close>, and puts it into the markup
  of the box as it is. An invocation on the example page waits for its response. With the
  error text \<open>Quota exceeded\<close> the box holds the notice in its \<open>span\<close>, beside the close
  button, and the call returns. With the error text \<open><textarea>\<close> the content of the page
  is unchanged, but the \<open>span\<close> of the box holds a \<open>textarea\<close> that has taken the rest of
  the template as its text, the box has no close button, and the invocation ends with the
  \<open>TypeError\<close> of calling \<open>addEventListener\<close> on \<open>null\<close>.
\<close>

theorem markup_in_error_text_breaks_notice:
  "(let waiting = step textareaParser Invoke freshPage;
        result = transformArticle_resume textareaParser (Some (Failed (Some markupError))) waiting;
        plain = transformArticle_resume textareaParser (Some (Failed (Some (js ''Quota exceeded''))))
                  waiting
    in pending waiting = 1
       \<and> snd plain = None
       \<and> map textContent (querySelectorAll [Type ''span''] (doc (fst plain)))
           = [js ''Transformation failed: Quota exceeded'']
       \<and> map textContent (querySelectorAll [Type ''button''] (doc (fst plain))) = [[0xD7]]
       \<and> snd result = Some (cannotRead ''null'' ''addEventListener'')
       \<and> getAttribute ''id'' (last (body (doc (fst result)))) = Some (js ''extensionMessageBox'')
       \<and> find (hasId ''closeMessageBox'') (all_elements (doc (fst result))) = None
       \<and> map textContent (querySelectorAll [Type ''span''] (doc (fst result)))
           = [js ''Transformation failed: '' @ swallowedTemplate]
       \<and> map textContent (querySelectorAll [Type ''textarea''] (doc (fst result)))
           = [swallowedTemplate]
       \<and> querySelectorAll [Type ''button''] (doc (fst result)) = []
       \<and> pageContent (doc (fst result)) = pageContent examplePage)"
  by code_simp

subsection \<open>C5: the title of the article\<close>

text \<open>
  Claim C5 says that \<open>getArticleTitle\<close> returns the first non-empty trimmed text of the
  heading selectors and otherwise falls back to the \<open>og:title\<close> tag and the document
  title. The test for emptiness is made before the text is trimmed: a heading of white
  space passes it, and the function returns the empty string although the \<open>og:title\<close>
  tag and the document title both hold the title.
\<close>

theorem blank_heading_yields_empty_title:
  "getArticleTitle blankHeadingPage = Some []
   \<and> map textContent (querySelectorAll h1Selectors blankHeadingPage) = [js ''   '']
   \<and> map content (querySelectorAll [TypeAttrEq ''meta'' ''property'' ''og:title''] blankHeadingPage)
       = [js ''Dog wins show'']
   \<and> document_title blankHeadingPage = js ''Dog wins show - News''"
  by code_simp

subsection \<open>C6: paragraphs of the container\<close>

text \<open>
  Claim C6 says that, a container found, the body is made of the paragraph texts longer
  than 50 characters and is absent when there is no such text. A container without any
  paragraph element has no such text, yet its own text is returned when it is longer than
  100 characters.
\<close>

theorem direct_text_without_paragraphs:
  "findContainer bareArticlePage articleBodySelectors = Some bareArticle
   \<and> elemQuerySelectorAll paragraphSelectors bareArticle = []
   \<and> getArticleBody bareArticlePage
       = Some (js ''The local dog, a golden retriever named Buddy, won the national dog show on Sunday, to the delight of the whole town.'')"
  by code_simp

text \<open>
  Claim C6, amended: when the container found has at least one paragraph-like element
  below it (\<open>p\<close> or \<open>div.Normal\<close>, at any depth), the body is the trimmed texts of these
  elements that are longer than 50 characters, joined by blank lines, and it is absent
  when none is longer than 50 characters.
\<close>

theorem getArticleBody_container_paragraphs:
  "findContainer d articleBodySelectors = Some container \<Longrightarrow>
   elemQuerySelectorAll paragraphSelectors container \<noteq> [] \<Longrightarrow>
   (let fragments = filter (\<lambda>text. length text > 50)
                      (map (\<lambda>p. trim (textContent p))
                         (elemQuerySelectorAll paragraphSelectors container))
    in getArticleBody d =
         (if fragments = [] then None else Some (join (js ''\<newline>\<newline>'') fragments)))"
  by (simp add: getArticleBody_def articleText_def trimmedTexts_def Let_def filter_map)

text \<open>On the example page the caption of 30 characters is dropped.\<close>

theorem getArticleBody_container_paragraphs_witness:
  "findContainer examplePage articleBodySelectors
     = Some (Element ''article'' [] [] [] True [storyParagraph, caption])
   \<and> elemQuerySelectorAll paragraphSelectors
         (Element ''article'' [] [] [] True [storyParagraph, caption]) \<noteq> []
   \<and> length (trim (textContent caption)) = 30
   \<and> getArticleBody examplePage
       = Some (js ''The local dog, a golden retriever named Buddy, won the national dog show.'')"
proof -
  let ?article = "Element ''article'' [] [] [] True [storyParagraph, caption]"
  have container: "findContainer examplePage articleBodySelectors = Some ?article"
    by code_simp
  have paragraphs: "elemQuerySelectorAll paragraphSelectors ?article \<noteq> []"
    by code_simp
  have short: "length (trim (textContent caption)) = 30"
    by code_simp
  let ?fragments = "filter (\<lambda>text. length text > 50)
                      (map (\<lambda>p. trim (textContent p))
                         (elemQuerySelectorAll paragraphSelectors ?article))"
  have fragments: "(if ?fragments = [] then None
                    else Some (join (js ''\<newline>\<newline>'') ?fragments))
        = Some (js ''The local dog, a golden retriever named Buddy, won the national dog show.'')"
    by code_simp
  from getArticleBody_container_paragraphs [OF container paragraphs]
  have "getArticleBody examplePage
          = (if ?fragments = [] then None else Some (join (js ''\<newline>\<newline>'') ?fragments))"
    unfolding Let_def .
  with fragments have "getArticleBody examplePage
          = Some (js ''The local dog, a golden retriever named Buddy, won the national dog show.'')"
    by (simp only:)
  with container paragraphs short show ?thesis by blast
qed

subsection \<open>C7: extraction failure\<close>

text \<open>
  Claim C7: when the extraction of the title or of the body yields nothing (\<open>null\<close>, or
  the empty string), \<open>transformArticle\<close> shows the failure notification and sends no
  request: nothing is added to the messages sent, and no invocation waits for a response.
\<close>

theorem extraction_failure_notifies_without_sending:
  "\<not> isTransformed pg \<Longrightarrow>
   \<not> truthy (getArticleTitle (doc pg)) \<or> \<not> truthy (getArticleBody (doc pg)) \<Longrightarrow>
   (let pg' = transformArticle_begin parse pg;
        notice = js ''Could not find enough article content to transform. Try a different article or newspaper.''
    in outbox pg' = outbox pg \<and> pending pg' = pending pg
       \<and> doc pg' = showMessageBox parse notice ''error'' (doc pg)
       \<and> last (body (doc pg')) = messageBox parse notice ''error''
       \<and> ''bg-red-500'' \<in> set (classList (last (body (doc pg')))))"
  by (auto simp: begin_unfolded truthy_def Let_def last_body_showMessageBox
      messageBox_def split: option.splits)

text \<open>A page without any content.\<close>

theorem extraction_failure_notifies_without_sending_witness:
  "\<not> isTransformed \<lparr>doc = emptyPage, isTransformed = False, outbox = [], pending = 0\<rparr>
   \<and> \<not> truthy (getArticleTitle emptyPage)
   \<and> outbox (transformArticle_begin textParser
               \<lparr>doc = emptyPage, isTransformed = False, outbox = [], pending = 0\<rparr>) = []
   \<and> pending (transformArticle_begin textParser
               \<lparr>doc = emptyPage, isTransformed = False, outbox = [], pending = 0\<rparr>) = 0
   \<and> ''bg-red-500'' \<in> set (classList (last (body (doc (transformArticle_begin textParser
               \<lparr>doc = emptyPage, isTransformed = False, outbox = [], pending = 0\<rparr>)))))"
proof -
  let ?pg = "\<lparr>doc = emptyPage, isTransformed = False, outbox = [], pending = 0\<rparr>"
  have flag: "\<not> isTransformed ?pg"
    by simp
  have title: "\<not> truthy (getArticleTitle emptyPage)"
    by code_simp
  then have "\<not> truthy (getArticleTitle (doc ?pg)) \<or> \<not> truthy (getArticleBody (doc ?pg))"
    by simp
  from extraction_failure_notifies_without_sending [OF flag this, of textParser]
  have "outbox (transformArticle_begin textParser ?pg) = outbox ?pg"
    "pending (transformArticle_begin textParser ?pg) = pending ?pg"
    "''bg-red-500'' \<in> set (classList (last (body (doc (transformArticle_begin textParser ?pg)))))"
    unfolding Let_def by blast+
  with flag title show ?thesis by simp
qed

subsection \<open>C8: exceptions in the background script\<close>

text \<open>
  Claim C8: an exception raised while the background script handles a transform request
  does not escape. The promise of \<open>transformArticleWithGemini\<close> is always fulfilled, the
  listener answers every transform request, and when the \<open>try\<close> block throws, the answer
  is a failure response with the message of the exception, or with a fixed text when the
  exception has no message.
\<close>

theorem orchestrator_catches_every_exception:
  "(\<exists>response. fst (transformArticleWithGemini conv fetch (articleTitle request) (articleBody request))
                  = Inr response)
   \<and> (action request = ''transformArticle'' \<longrightarrow>
        (\<exists>response. onMessage conv fetch request = Some response))
   \<and> (\<forall>e. action request = ''transformArticle''
          \<and> fst (tryBlock conv fetch (articleTitle request) (articleBody request)) = Inl e \<longrightarrow>
          onMessage conv fetch request
            = Some (Failed (Some (if message e \<noteq> [] then message e
                                  else js ''Network or API response parsing error.''))))"
  by (auto simp: onMessage_def transformArticleWithGemini_def failure_def
      split: prod.splits sum.splits)

text \<open>The fetch is rejected with an error without a message.\<close>

theorem orchestrator_catches_every_exception_witness:
  "action \<lparr>action = ''transformArticle'', articleTitle = js ''Dog wins show'',
            articleBody = js ''Buddy won.''\<rparr> = ''transformArticle''
   \<and> fst (tryBlock nanConversion silentFailure (js ''Dog wins show'') (js ''Buddy won.''))
       = Inl (Error [])
   \<and> onMessage nanConversion silentFailure
        \<lparr>action = ''transformArticle'', articleTitle = js ''Dog wins show'',
          articleBody = js ''Buddy won.''\<rparr>
       = Some (Failed (Some (js ''Network or API response parsing error.'')))"
proof -
  let ?request = "\<lparr>action = ''transformArticle'', articleTitle = js ''Dog wins show'',
                    articleBody = js ''Buddy won.''\<rparr>"
  have thrown: "fst (tryBlock nanConversion silentFailure (articleTitle ?request)
                       (articleBody ?request)) = Inl (Error [])"
    by (simp add: tryBlock_def silentFailure_def Let_def)
  have "action ?request = ''transformArticle''"
    by simp
  with orchestrator_catches_every_exception [of nanConversion silentFailure ?request] thrown
  have "onMessage nanConversion silentFailure ?request
          = Some (Failed (Some (if message (Error []) \<noteq> [] then message (Error [])
                                else js ''Network or API response parsing error.'')))"
    by blast
  with thrown show ?thesis by simp
qed

subsection \<open>C9: the new body\<close>

text \<open>
  Claim C9: when \<open>updateArticleBody\<close> finds a container that qualifies, the first element
  of the page that matches the chosen selector, which is displayed and qualifies, keeps its
  place, its name, classes, attributes and style, and gets one child in place of its
  children: a new \<open>div\<close> whose children are one \<open>p\<close> element for each line of the lyrics
  that is not blank, in order, with the line as its text, and then the \<open>p\<close> element of the
  signature. Every other place of the page is as before, and the link of the font is added
  to the head. When no container qualifies, a new \<open>div\<close> with the heading, the lyrics and the
  signature is appended to the end of the body and nothing else changes.
\<close>

theorem updateArticleBody_replaces_or_appends:
  "(findUpdateContainer d articleBodyContainerSelectors = Some sel \<longrightarrow>
      (\<exists>place t c a s kids.
          firstPlace (matches sel) d = Some place
          \<and> elementAt place d = Some (Element t c a s True kids)
          \<and> querySelector sel d = Some (Element t c a s True kids)
          \<and> qualifies sel (Element t c a s True kids)
          \<and> updateArticleBody parse l d =
              (let block =
                     Element ''div''
                       [''bollywood-lyrics-container'', ''text-center'', ''py-8'', ''px-4'',
                        ''bg-gradient-to-r'', ''from-purple-100'', ''to-pink-100'', ''rounded-lg'',
                        ''shadow-lg'', ''my-8'', ''mx-auto'', ''max-w-2xl'']
                       []
                       [(''fontFamily'', [CHR 0x27] @ ''Dancing Script'' @ [CHR 0x27] @ '', cursive''),
                        (''fontSize'', ''1.2rem''), (''lineHeight'', ''1.8''), (''color'', ''#4A0033''),
                        (''width'', ''100%'')]
                       True
                       (map (\<lambda>line. Element ''p'' [''my-2''] [] [] True [Text line])
                          (filter (\<lambda>line. trim line \<noteq> []) (split_on 0x0A l))
                        @ [Element ''p'' [''mt-6'', ''italic'', ''text-gray-600'', ''text-sm''] [] [] True
                             [Text (0x2014 # js '' Your Bollywood News Transformer'')]]);
                   d' = replaceAt place (Element t c a s True [block]) d
               in d'\<lparr>head := head d' @
                    [Element ''link'' []
                       [(''href'', js ''https://fonts.googleapis.com/css2?family=Dancing+Script:wght@700&display=swap''),
                        (''rel'', js ''stylesheet'')]
                       [] False []]\<rparr>)))
   \<and> (findUpdateContainer d articleBodyContainerSelectors = None \<longrightarrow>
        updateArticleBody parse l d =
          d\<lparr>body := body d @
            [Element ''div''
               [''bollywood-content-appended'', ''text-center'', ''py-8'', ''px-4'', ''mt-8'',
                ''bg-gradient-to-r'', ''from-blue-100'', ''to-indigo-100'', ''rounded-lg'',
                ''shadow-lg'', ''my-8'', ''mx-auto'', ''max-w-2xl'']
               [] [] True
               (if plainText l
                then [Text (js ''\<newline>            ''),
                      Element ''h2'' [''text-2xl'', ''font-bold'', ''text-purple-700'', ''mb-4''] [] [] True
                        [Text ([0xFFFD] @ js '' A Bollywood Extravaganza! '' @ [0xD83C, 0xDFB6])],
                      Text (js ''\<newline>            ''),
                      Element ''div'' [''text-lg'', ''text-gray-800'', ''whitespace-pre-wrap''] [] [] True
                        (if l = [] then [] else [Text l]),
                      Text (js ''\<newline>            ''),
                      Element ''p'' [''mt-6'', ''italic'', ''text-gray-600'', ''text-sm''] [] [] True
                        [Text (0x2014 # js '' Your Bollywood News Transformer'')],
                      Text (js ''\<newline>        '')]
                else parse
                      (js ''\<newline>            <h2 class=\"text-2xl font-bold text-purple-700 mb-4\">''
                       @ [0xFFFD] @ js '' A Bollywood Extravaganza! '' @ [0xD83C, 0xDFB6]
                       @ js ''</h2>\<newline>            <div class=\"text-lg text-gray-800 whitespace-pre-wrap\">''
                       @ l
                       @ js ''</div>\<newline>            <p class=\"mt-6 italic text-gray-600 text-sm\">''
                       @ [0x2014] @ js '' Your Bollywood News Transformer''
                       @ js ''</p>\<newline>        ''))]\<rparr>)"
proof -
  have "\<exists>place t c a s kids.
          firstPlace (matches sel) d = Some place
          \<and> elementAt place d = Some (Element t c a s True kids)
          \<and> querySelector sel d = Some (Element t c a s True kids)
          \<and> qualifies sel (Element t c a s True kids)
          \<and> updateArticleBody parse l d =
              (replaceAt place (Element t c a s True [lyricsContainer l]) d)
              \<lparr>head := head (replaceAt place (Element t c a s True [lyricsContainer l]) d)
                         @ [fontLink]\<rparr>"
    if "findUpdateContainer d articleBodyContainerSelectors = Some sel"
  proof -
    from updateArticleBody_in_place [OF that, of parse l]
    obtain place t c a s v kids where
      chosen: "firstPlace (matches sel) d = Some place"
        "elementAt place d = Some (Element t c a s v kids)"
        "querySelector sel d = Some (Element t c a s v kids)"
        "qualifies sel (Element t c a s v kids)"
        "updateArticleBody parse l d =
           (replaceAt place (Element t c a s v [lyricsContainer l]) d)
           \<lparr>head := head (replaceAt place (Element t c a s v [lyricsContainer l]) d)
                      @ [fontLink]\<rparr>"
      and "v"
      by blast
    then have "v = True" by simp
    with chosen show ?thesis by blast
  qed
  moreover have "updateArticleBody parse l d = d\<lparr>body := body d @ [newSection parse l]\<rparr>"
    if "findUpdateContainer d articleBodyContainerSelectors = None"
    using that by (simp add: updateArticleBody_def)
  ultimately show ?thesis
    unfolding Let_def lyricsContainer_written_out fontLink_def newSection_def newSectionTree_def
      newSectionHTML_def textNodes_def signatureText_def append_Cons append_Nil
    by blast
qed

text \<open>The article of the example page, and a page without content.\<close>

theorem updateArticleBody_replaces_or_appends_witness:
  "findUpdateContainer examplePage articleBodyContainerSelectors = Some (Type ''article'')
   \<and> firstPlace (matches (Type ''article'')) examplePage = Some (InBody [1])
   \<and> updateArticleBody textParser (js ''la la\<newline>\<newline>na na'') examplePage
       = \<lparr>head = [Element ''title'' [] [] [] False [Text (js ''News'')],
                  Element ''link'' []
                    [(''href'', js ''https://fonts.googleapis.com/css2?family=Dancing+Script:wght@700&display=swap''),
                     (''rel'', js ''stylesheet'')]
                    [] False []],
          body = [Element ''h1'' [] [] [] True [Text (js ''Dog wins show'')],
                  Element ''article'' [] [] [] True
                    [Element ''div''
                       [''bollywood-lyrics-container'', ''text-center'', ''py-8'', ''px-4'',
                        ''bg-gradient-to-r'', ''from-purple-100'', ''to-pink-100'', ''rounded-lg'',
                        ''shadow-lg'', ''my-8'', ''mx-auto'', ''max-w-2xl'']
                       []
                       [(''fontFamily'', [CHR 0x27] @ ''Dancing Script'' @ [CHR 0x27] @ '', cursive''),
                        (''fontSize'', ''1.2rem''), (''lineHeight'', ''1.8''), (''color'', ''#4A0033''),
                        (''width'', ''100%'')]
                       True
                       [Element ''p'' [''my-2''] [] [] True [Text (js ''la la'')],
                        Element ''p'' [''my-2''] [] [] True [Text (js ''na na'')],
                        Element ''p'' [''mt-6'', ''italic'', ''text-gray-600'', ''text-sm''] [] [] True
                          [Text (0x2014 # js '' Your Bollywood News Transformer'')]]]]\<rparr>
   \<and> findUpdateContainer emptyPage articleBodyContainerSelectors = None
   \<and> plainText (js ''la la'')
   \<and> updateArticleBody textParser (js ''la la'') emptyPage
       = \<lparr>head = [],
          body = [Element ''div''
                    [''bollywood-content-appended'', ''text-center'', ''py-8'', ''px-4'', ''mt-8'',
                     ''bg-gradient-to-r'', ''from-blue-100'', ''to-indigo-100'', ''rounded-lg'',
                     ''shadow-lg'', ''my-8'', ''mx-auto'', ''max-w-2xl'']
                    [] [] True
                    [Text (js ''\<newline>            ''),
                     Element ''h2'' [''text-2xl'', ''font-bold'', ''text-purple-700'', ''mb-4''] [] [] True
                       [Text ([0xFFFD] @ js '' A Bollywood Extravaganza! '' @ [0xD83C, 0xDFB6])],
                     Text (js ''\<newline>            ''),
                     Element ''div'' [''text-lg'', ''text-gray-800'', ''whitespace-pre-wrap''] [] [] True
                       [Text (js ''la la'')],
                     Text (js ''\<newline>            ''),
                     Element ''p'' [''mt-6'', ''italic'', ''text-gray-600'', ''text-sm''] [] [] True
                       [Text (0x2014 # js '' Your Bollywood News Transformer'')],
                     Text (js ''\<newline>        '')]]\<rparr>"
proof -
  let ?lyrics = "js ''la la\<newline>\<newline>na na''"
  have found: "findUpdateContainer examplePage articleBodyContainerSelectors = Some (Type ''article'')"
    by code_simp
  have none: "findUpdateContainer emptyPage articleBodyContainerSelectors = None"
    by code_simp
  have place: "firstPlace (matches (Type ''article'')) examplePage = Some (InBody [1])"
    by code_simp
  have article: "elementAt (InBody [1]) examplePage
                   = Some (Element ''article'' [] [] [] True [storyParagraph, caption])"
    by code_simp
  have lines: "filter (\<lambda>line. trim line \<noteq> []) (split_on 0x0A ?lyrics) = [js ''la la'', js ''na na'']"
    by code_simp
  have plain: "plainText (js ''la la'')"
    by code_simp
  have nonempty: "js ''la la'' \<noteq> []"
    by code_simp
  note claim = updateArticleBody_replaces_or_appends
  from claim [of examplePage "Type ''article''" textParser ?lyrics] found
  obtain p t c a s kids where chosen: "firstPlace (matches (Type ''article'')) examplePage = Some p"
    "elementAt p examplePage = Some (Element t c a s True kids)"
    and updated: "updateArticleBody textParser ?lyrics examplePage =
              (let block =
                     Element ''div''
                       [''bollywood-lyrics-container'', ''text-center'', ''py-8'', ''px-4'',
                        ''bg-gradient-to-r'', ''from-purple-100'', ''to-pink-100'', ''rounded-lg'',
                        ''shadow-lg'', ''my-8'', ''mx-auto'', ''max-w-2xl'']
                       []
                       [(''fontFamily'', [CHR 0x27] @ ''Dancing Script'' @ [CHR 0x27] @ '', cursive''),
                        (''fontSize'', ''1.2rem''), (''lineHeight'', ''1.8''), (''color'', ''#4A0033''),
                        (''width'', ''100%'')]
                       True
                       (map (\<lambda>line. Element ''p'' [''my-2''] [] [] True [Text line])
                          (filter (\<lambda>line. trim line \<noteq> []) (split_on 0x0A ?lyrics))
                        @ [Element ''p'' [''mt-6'', ''italic'', ''text-gray-600'', ''text-sm''] [] [] True
                             [Text (0x2014 # js '' Your Bollywood News Transformer'')]]);
                   d' = replaceAt p (Element t c a s True [block]) examplePage
               in d'\<lparr>head := head d' @
                    [Element ''link'' []
                       [(''href'', js ''https://fonts.googleapis.com/css2?family=Dancing+Script:wght@700&display=swap''),
                        (''rel'', js ''stylesheet'')]
                       [] False []]\<rparr>)"
    by blast
  from chosen place article have "p = InBody [1]" "t = ''article''" "c = []" "a = []" "s = []"
    by simp_all
  with updated have first: "updateArticleBody textParser ?lyrics examplePage
       = \<lparr>head = [Element ''title'' [] [] [] False [Text (js ''News'')],
                  Element ''link'' []
                    [(''href'', js ''https://fonts.googleapis.com/css2?family=Dancing+Script:wght@700&display=swap''),
                     (''rel'', js ''stylesheet'')]
                    [] False []],
          body = [Element ''h1'' [] [] [] True [Text (js ''Dog wins show'')],
                  Element ''article'' [] [] [] True
                    [Element ''div''
                       [''bollywood-lyrics-container'', ''text-center'', ''py-8'', ''px-4'',
                        ''bg-gradient-to-r'', ''from-purple-100'', ''to-pink-100'', ''rounded-lg'',
                        ''shadow-lg'', ''my-8'', ''mx-auto'', ''max-w-2xl'']
                       []
                       [(''fontFamily'', [CHR 0x27] @ ''Dancing Script'' @ [CHR 0x27] @ '', cursive''),
                        (''fontSize'', ''1.2rem''), (''lineHeight'', ''1.8''), (''color'', ''#4A0033''),
                        (''width'', ''100%'')]
                       True
                       [Element ''p'' [''my-2''] [] [] True [Text (js ''la la'')],
                        Element ''p'' [''my-2''] [] [] True [Text (js ''na na'')],
                        Element ''p'' [''mt-6'', ''italic'', ''text-gray-600'', ''text-sm''] [] [] True
                          [Text (0x2014 # js '' Your Bollywood News Transformer'')]]]]\<rparr>"
    by (simp add: lines Let_def examplePage_def)
  from claim [of emptyPage "Type ''article''" textParser "js ''la la''"] none
  have second: "updateArticleBody textParser (js ''la la'') emptyPage
       = \<lparr>head = [],
          body = [Element ''div''
                    [''bollywood-content-appended'', ''text-center'', ''py-8'', ''px-4'', ''mt-8'',
                     ''bg-gradient-to-r'', ''from-blue-100'', ''to-indigo-100'', ''rounded-lg'',
                     ''shadow-lg'', ''my-8'', ''mx-auto'', ''max-w-2xl'']
                    [] [] True
                    [Text (js ''\<newline>            ''),
                     Element ''h2'' [''text-2xl'', ''font-bold'', ''text-purple-700'', ''mb-4''] [] [] True
                       [Text ([0xFFFD] @ js '' A Bollywood Extravaganza! '' @ [0xD83C, 0xDFB6])],
                     Text (js ''\<newline>            ''),
                     Element ''div'' [''text-lg'', ''text-gray-800'', ''whitespace-pre-wrap''] [] [] True
                       [Text (js ''la la'')],
                     Text (js ''\<newline>            ''),
                     Element ''p'' [''mt-6'', ''italic'', ''text-gray-600'', ''text-sm''] [] [] True
                       [Text (0x2014 # js '' Your Bollywood News Transformer'')],
                     Text (js ''\<newline>        '')]]\<rparr>"
    by (simp add: plain nonempty emptyPage_def)
  from found place first none plain second show ?thesis
    by (simp only: simp_thms)
qed

subsection \<open>C10: a container without paragraphs\<close>

text \<open>
  Claim C10: when the container found has no paragraph-like element below it, the body is
  the trimmed text of the container itself if that is longer than 100 characters, and
  absent otherwise.
\<close>

theorem getArticleBody_container_direct_text:
  "findContainer d articleBodySelectors = Some container \<Longrightarrow>
   elemQuerySelectorAll paragraphSelectors container = [] \<Longrightarrow>
   getArticleBody d =
     (if length (trim (textContent container)) > 100
      then Some (trim (textContent container)) else None)"
  by (simp add: getArticleBody_def articleText_def Let_def)

text \<open>The page whose article holds its text directly.\<close>

theorem getArticleBody_container_direct_text_witness:
  "findContainer bareArticlePage articleBodySelectors = Some bareArticle
   \<and> elemQuerySelectorAll paragraphSelectors bareArticle = []
   \<and> 100 < length (trim (textContent bareArticle))
   \<and> getArticleBody bareArticlePage = Some (trim (textContent bareArticle))"
proof -
  have container: "findContainer bareArticlePage articleBodySelectors = Some bareArticle"
    by code_simp
  have paragraphs: "elemQuerySelectorAll paragraphSelectors bareArticle = []"
    by code_simp
  have long: "100 < length (trim (textContent bareArticle))"
    by code_simp
  with getArticleBody_container_direct_text [OF container paragraphs] container paragraphs
  show ?thesis by simp
qed

end
